theory Spec2Isabelle
  imports Main
begin

section \<open>JavaScript strings and the built-ins the handlers call\<close>

text \<open>
  A JavaScript string is a sequence of UTF-16 code units and \<open>length\<close> counts them. The
  model takes \<^typ>\<open>string\<close> for it, one \<^typ>\<open>char\<close> per code unit, which covers the
  code units U+0000 to U+00FF (ASCII and Latin-1). The built-ins below are the ECMAScript
  ones restricted to that range.
\<close>

definition isWhiteSpace :: "char \<Rightarrow> bool" where
  \<comment> \<open>WhiteSpace and LineTerminator code points below U+0100: TAB, LF, VT, FF, CR, SP, NBSP.\<close>
  "isWhiteSpace c = (of_char c \<in> {9, 10, 11, 12, 13, 32, 160 :: nat})"

definition trim :: "string \<Rightarrow> string" where
  \<comment> \<open>\<open>String.prototype.trim\<close>\<close>
  "trim s = rev (dropWhile isWhiteSpace (rev (dropWhile isWhiteSpace s)))"

definition isUpperCase :: "char \<Rightarrow> bool" where
  \<comment> \<open>A to Z, and the Latin-1 capitals U+00C0 to U+00DE without the multiplication sign.\<close>
  "isUpperCase c =
     (let n = of_char c :: nat
      in (65 \<le> n \<and> n \<le> 90) \<or> (192 \<le> n \<and> n \<le> 222 \<and> n \<noteq> 215))"

fun setBit5 :: "char \<Rightarrow> char" where
  \<comment> \<open>adds 32 to the code unit of a capital, whose bit 5 is clear\<close>
  "setBit5 (Char b0 b1 b2 b3 b4 b5 b6 b7) = Char b0 b1 b2 b3 b4 True b6 b7"

definition toLowerCase_char :: "char \<Rightarrow> char" where
  "toLowerCase_char c = (if isUpperCase c then setBit5 c else c)"

definition toLowerCase :: "string \<Rightarrow> string" where
  \<comment> \<open>\<open>String.prototype.toLowerCase\<close>\<close>
  "toLowerCase s = map toLowerCase_char s"

fun Array_join :: "string list \<Rightarrow> string \<Rightarrow> string" where
  \<comment> \<open>\<open>Array.prototype.join\<close> on an array of strings\<close>
  "Array_join [] sep = []"
| "Array_join [x] sep = x"
| "Array_join (x # y # ys) sep = x @ sep @ Array_join (y # ys) sep"

definition substring :: "string \<Rightarrow> nat \<Rightarrow> nat \<Rightarrow> string" where
  \<comment> \<open>\<open>s.substring(a, b)\<close> for \<open>a \<le> b\<close>; both indices are clamped to the length\<close>
  "substring s a b = take (b - a) (drop a s)"

definition split_first :: "string \<Rightarrow> char \<Rightarrow> string" where
  \<comment> \<open>\<open>s.split(c)[0]\<close>: the part before the first occurrence of the separator\<close>
  "split_first s c = takeWhile (\<lambda>x. x \<noteq> c) s"

definition startsWith :: "string \<Rightarrow> string \<Rightarrow> bool" where
  "startsWith s p = (take (length p) s = p)"

definition endsWith :: "string \<Rightarrow> string \<Rightarrow> bool" where
  "endsWith s p = (length p \<le> length s \<and> drop (length s - length p) s = p)"

fun String_includes :: "string \<Rightarrow> string \<Rightarrow> bool" where
  \<comment> \<open>\<open>String.prototype.includes\<close>: the second string occurs in the first\<close>
  "String_includes [] sub = (sub = [])"
| "String_includes (c # cs) sub = (startsWith (c # cs) sub \<or> String_includes cs sub)"

definition truthy :: "string option \<Rightarrow> bool" where
  \<comment> \<open>truthiness of an optional string: \<open>undefined\<close> and \<open>\"\"\<close> are falsy\<close>
  "truthy v = (case v of None \<Rightarrow> False | Some s \<Rightarrow> s \<noteq> [])"

definition or_else :: "string option \<Rightarrow> string option \<Rightarrow> string option" where
  \<comment> \<open>\<open>a || b\<close> on optional strings\<close>
  "or_else a b = (if truthy a then a else b)"

definition or_default :: "string option \<Rightarrow> string \<Rightarrow> string" where
  \<comment> \<open>\<open>a || d\<close> where \<open>d\<close> is a string\<close>
  "or_default a d = (case a of None \<Rightarrow> d | Some s \<Rightarrow> if s \<noteq> [] then s else d)"

section \<open>JSON values\<close>

text \<open>
  What \<open>response.json()\<close> gives is untyped. A property that is absent reads as
  \<open>undefined\<close>; the code modelled here treats \<open>undefined\<close> and \<open>null\<close> alike (both are
  falsy, both stop \<open>?.\<close>, neither is a string or an array), so one value stands for the
  two. Numbers are modelled as integers.
\<close>

datatype json_value =
    JNull
  | JBool bool
  | JNum int
  | JStr string
  | JArr "json_value list"
  | JObj "(string \<times> json_value) list"

fun truthy_json :: "json_value \<Rightarrow> bool" where
  "truthy_json JNull = False"
| "truthy_json (JBool b) = b"
| "truthy_json (JNum n) = (n \<noteq> 0)"
| "truthy_json (JStr s) = (s \<noteq> [])"
| "truthy_json (JArr xs) = True"
| "truthy_json (JObj kvs) = True"

fun get_property :: "json_value \<Rightarrow> string \<Rightarrow> json_value" where
  \<comment> \<open>\<open>v.k\<close> for the property names the handlers read; of a repeated key the last one counts\<close>
  "get_property (JObj kvs) k = (case map_of (rev kvs) k of None \<Rightarrow> JNull | Some v \<Rightarrow> v)"
| "get_property v k = JNull"

definition or_json :: "json_value \<Rightarrow> json_value \<Rightarrow> json_value" where
  \<comment> \<open>\<open>a || b\<close>\<close>
  "or_json a b = (if truthy_json a then a else b)"

section \<open>Data model (\<open>src/app/lib/types.ts\<close>)\<close>

text \<open>
  \<open>Contact\<close> is the declared type of the argument of the contact-name helpers, with the
  two fields they read; both are optional in the source (\<open>field?: string\<close>), hence an
  \<open>option\<close>. The handler builds the two answers from the untyped upstream record: the
  fields it takes over with \<open>||\<close> hold whatever truthy value the record has, so they are
  JSON values in the model; the fields that come out of a helper are strings.
\<close>

record Contact =
  organization :: "string option"
  name :: "string option"

record DomainInformation =
  domainName :: json_value
  registrar :: json_value
  registrationDate :: string
  expirationDate :: string
  estimatedDomainAge :: json_value
  hostnames :: string

record ContactInformation =
  registrantName :: string
  technicalContactName :: string
  administrativeContactName :: string
  contactEmail :: json_value

section \<open>Field helpers, the short revision (\<open>src/app/lib/utils.ts\<close>)\<close>

text \<open>
  The repository holds two revisions of the helper module \<open>lib/utils\<close>. This section
  models the short one, \<open>src/app/lib/utils.ts\<close>, on its declared argument types. The
  next section models the documented one, which checks the types of its arguments, trims
  strings and filters host names, and which the handlers are modelled with.
\<close>

subsection \<open>The \<open>Date\<close> built-in\<close>

text \<open>
  \<open>new Date(s)\<close> holds a time value, the milliseconds since 1970-01-01T00:00:00Z, or NaN
  when \<open>s\<close> does not parse. What parses is left to the engine outside the ISO format, so
  the parser is a parameter \<open>Date_parse\<close> of the model, with \<open>None\<close> for NaN.
  \<open>toISOString\<close> is fixed by ECMAScript: it throws a RangeError on NaN and prints
  \<open>YYYY-MM-DDTHH:mm:ss.sssZ\<close> otherwise, with a sign and six digits for years outside
  0 to 9999. The calendar date of a day number is computed in the proleptic Gregorian
  calendar by eras of 400 years.
\<close>

definition msPerDay :: int where
  "msPerDay = 86400000"

definition Day :: "int \<Rightarrow> int" where
  "Day t = t div msPerDay"

definition TimeWithinDay :: "int \<Rightarrow> int" where
  "TimeWithinDay t = t mod msPerDay"

definition civil :: "int \<Rightarrow> int \<times> int \<times> int" where
  \<comment> \<open>year, month (1 to 12) and day of the month of a day number counted from 1970-01-01\<close>
  "civil days =
     (let z = days + 719468;
          era = z div 146097;
          doe = z mod 146097;
          yoe = (doe - doe div 1460 + doe div 36524 - doe div 146096) div 365;
          doy = doe - (365 * yoe + yoe div 4 - yoe div 100);
          mp = (5 * doy + 2) div 153;
          d = doy - (153 * mp + 2) div 5 + 1;
          m = (if mp < 10 then mp + 3 else mp - 9);
          y = yoe + era * 400 + (if m \<le> 2 then 1 else 0)
      in (y, m, d))"

definition YearFromTime :: "int \<Rightarrow> int" where
  "YearFromTime t = fst (civil (Day t))"

definition MonthFromTime :: "int \<Rightarrow> int" where
  \<comment> \<open>0 for January, as in ECMAScript\<close>
  "MonthFromTime t = fst (snd (civil (Day t))) - 1"

definition DateFromTime :: "int \<Rightarrow> int" where
  "DateFromTime t = snd (snd (civil (Day t)))"

definition digit :: "nat \<Rightarrow> char" where
  "digit k = ''0123456789'' ! (k mod 10)"

definition pad2 :: "nat \<Rightarrow> string" where
  "pad2 k = [digit (k div 10), digit k]"

definition pad3 :: "nat \<Rightarrow> string" where
  "pad3 k = [digit (k div 100), digit (k div 10), digit k]"

definition pad4 :: "nat \<Rightarrow> string" where
  "pad4 k = [digit (k div 1000), digit (k div 100), digit (k div 10), digit k]"

definition pad6 :: "nat \<Rightarrow> string" where
  "pad6 k = [digit (k div 100000), digit (k div 10000), digit (k div 1000),
             digit (k div 100), digit (k div 10), digit k]"

definition isoYear :: "int \<Rightarrow> string" where
  "isoYear y =
     (if 0 \<le> y \<and> y \<le> 9999 then pad4 (nat y)
      else (if y < 0 then ''-'' else ''+'') @ pad6 (nat \<bar>y\<bar>))"

definition isoDate :: "int \<Rightarrow> string" where
  "isoDate t =
     isoYear (YearFromTime t) @ ''-'' @ pad2 (nat (MonthFromTime t + 1)) @ ''-''
       @ pad2 (nat (DateFromTime t))"

definition isoTime :: "int \<Rightarrow> string" where
  "isoTime t =
     (let ms = nat (TimeWithinDay t)
      in pad2 (ms div 3600000) @ '':'' @ pad2 (ms div 60000 mod 60) @ '':''
           @ pad2 (ms div 1000 mod 60) @ ''.'' @ pad3 (ms mod 1000))"

definition toISOString :: "int \<Rightarrow> string" where
  "toISOString t = isoDate t @ ''T'' @ isoTime t @ ''Z''"

subsection \<open>The helpers\<close>

definition formatDate :: "(string \<Rightarrow> int option) \<Rightarrow> string option \<Rightarrow> string" where
  \<comment> \<open>the RangeError of \<open>toISOString\<close> on an invalid date is caught and gives the fallback\<close>
  "formatDate Date_parse dateString =
     (case dateString of
        None \<Rightarrow> ''N/A''
      | Some s \<Rightarrow>
          if s = [] then ''N/A''
          else (case Date_parse s of
                  None \<Rightarrow> ''N/A''
                | Some t \<Rightarrow> split_first (toISOString t) CHR ''T''))"

definition formatHostnames :: "string list option \<Rightarrow> string" where
  "formatHostnames arg =
     (case arg of
        None \<Rightarrow> ''N/A''
      | Some hs \<Rightarrow>
          if length hs = 0 then ''N/A''
          else
            let hostnameString = Array_join hs '', ''
            in if length hostnameString > 25
               then substring hostnameString 0 22 @ ''...''
               else hostnameString)"

definition getRegistrantName :: "Contact option \<Rightarrow> string" where
  "getRegistrantName arg =
     (case arg of
        None \<Rightarrow> ''N/A''
      | Some r \<Rightarrow> or_default (or_else (organization r) (name r)) ''N/A'')"

definition getTechnicalContactName :: "Contact option \<Rightarrow> string" where
  "getTechnicalContactName arg =
     (case arg of
        None \<Rightarrow> ''N/A''
      | Some t \<Rightarrow> or_default (or_else (organization t) (name t)) ''N/A'')"

definition getAdministrativeContactName :: "Contact option \<Rightarrow> string" where
  "getAdministrativeContactName arg =
     (case arg of
        None \<Rightarrow> ''N/A''
      | Some a \<Rightarrow> or_default (or_else (organization a) (name a)) ''N/A'')"

section \<open>Field helpers, the documented revision (\<open>src/unnamed/part_003\<close>)\<close>

text \<open>
  The second revision of \<open>lib/utils\<close>: it has the same import and the same exports as
  \<open>utils.ts\<close>, names its constants, and guards every helper against arguments of the
  wrong type, so it is modelled on JSON values. It goes with the handlers modelled below,
  which pass it what they read from the untyped upstream record. Its definitions carry the
  suffix \<open>_part003\<close>.
\<close>

definition MAX_HOSTNAME_DISPLAY_LENGTH :: nat where
  "MAX_HOSTNAME_DISPLAY_LENGTH = 25"

definition HOSTNAME_TRUNCATION_SUFFIX :: string where
  "HOSTNAME_TRUNCATION_SUFFIX = ''...''"

definition DEFAULT_FALLBACK_VALUE :: string where
  "DEFAULT_FALLBACK_VALUE = ''N/A''"

definition isDigit :: "char \<Rightarrow> bool" where
  \<comment> \<open>the class \<open>\\d\<close>\<close>
  "isDigit c = (let n = of_char c :: nat in 48 \<le> n \<and> n \<le> 57)"

fun dateRegex_test :: "string \<Rightarrow> bool" where
  \<comment> \<open>\<open>/^\\d{4}-\\d{2}-\\d{2}$/.test(s)\<close>\<close>
  "dateRegex_test [y1, y2, y3, y4, h1, m1, m2, h2, d1, d2] =
     (isDigit y1 \<and> isDigit y2 \<and> isDigit y3 \<and> isDigit y4 \<and> h1 = CHR ''-''
      \<and> isDigit m1 \<and> isDigit m2 \<and> h2 = CHR ''-'' \<and> isDigit d1 \<and> isDigit d2)"
| "dateRegex_test s = False"

definition formatDate_part003 :: "(string \<Rightarrow> int option) \<Rightarrow> json_value \<Rightarrow> string" where
  \<comment> \<open>\<open>isNaN(date.getTime())\<close> is the parse that gives no time value\<close>
  "formatDate_part003 Date_parse dateString =
     (case dateString of
        JStr s \<Rightarrow>
          if s = [] \<or> trim s = [] then DEFAULT_FALLBACK_VALUE
          else
            (case Date_parse (trim s) of
               None \<Rightarrow> DEFAULT_FALLBACK_VALUE
             | Some t \<Rightarrow>
                 if \<not> dateRegex_test (split_first (toISOString t) CHR ''T'')
                 then DEFAULT_FALLBACK_VALUE
                 else split_first (toISOString t) CHR ''T'')
      | _ \<Rightarrow> DEFAULT_FALLBACK_VALUE)"

fun isValidHostname :: "json_value \<Rightarrow> bool" where
  \<comment> \<open>the predicate of the \<open>filter\<close>\<close>
  "isValidHostname (JStr hostname) = (length (trim hostname) > 0)"
| "isValidHostname hostname = False"

fun stringValue :: "json_value \<Rightarrow> string" where
  \<comment> \<open>the string that \<open>join\<close> takes from an entry; after the filter every entry is a string\<close>
  "stringValue (JStr s) = s"
| "stringValue v = []"

definition formatHostnames_part003 :: "json_value \<Rightarrow> string" where
  "formatHostnames_part003 arg =
     (case arg of
        JArr hs \<Rightarrow>
          if length hs = 0 then DEFAULT_FALLBACK_VALUE
          else
            let validHostnames = filter isValidHostname hs
            in if length validHostnames = 0 then DEFAULT_FALLBACK_VALUE
               else
                 let hostnameString = Array_join (map stringValue validHostnames) '', ''
                 in if length hostnameString > MAX_HOSTNAME_DISPLAY_LENGTH
                    then substring hostnameString 0
                           (MAX_HOSTNAME_DISPLAY_LENGTH - length HOSTNAME_TRUNCATION_SUFFIX)
                         @ HOSTNAME_TRUNCATION_SUFFIX
                    else hostnameString
      | _ \<Rightarrow> DEFAULT_FALLBACK_VALUE)"

fun isObject :: "json_value \<Rightarrow> bool" where
  \<comment> \<open>\<open>v && typeof v === \"object\"\<close>: an object or an array\<close>
  "isObject (JObj kvs) = True"
| "isObject (JArr xs) = True"
| "isObject v = False"

fun optional_trim :: "json_value \<Rightarrow> string option option" where
  \<comment> \<open>\<open>v?.trim()\<close>: \<open>undefined\<close> (\<open>Some None\<close>) for an absent value, the trimmed string
      for a string, and a TypeError (\<open>None\<close>) for any other value, which has no \<open>trim\<close>\<close>
  "optional_trim JNull = Some None"
| "optional_trim (JStr s) = Some (Some (trim s))"
| "optional_trim v = None"

text \<open>
  In the three resolvers a \<open>TypeError\<close> thrown by \<open>?.trim()\<close> is caught and gives the
  fallback. \<open>if (s && s.length > 0) return s\<close> is the truthiness of the trimmed string.
\<close>

definition getRegistrantName_part003 :: "json_value \<Rightarrow> string" where
  "getRegistrantName_part003 registrant =
     (if \<not> isObject registrant then DEFAULT_FALLBACK_VALUE
      else
        (case optional_trim (get_property registrant ''organization'') of
           None \<Rightarrow> DEFAULT_FALLBACK_VALUE
         | Some organizationName \<Rightarrow>
             if truthy organizationName
             then or_default organizationName DEFAULT_FALLBACK_VALUE
             else
               (case optional_trim (get_property registrant ''name'') of
                  None \<Rightarrow> DEFAULT_FALLBACK_VALUE
                | Some individualName \<Rightarrow>
                    or_default individualName DEFAULT_FALLBACK_VALUE)))"

definition getTechnicalContactName_part003 :: "json_value \<Rightarrow> string" where
  "getTechnicalContactName_part003 technicalContact =
     (if \<not> isObject technicalContact then DEFAULT_FALLBACK_VALUE
      else
        (case optional_trim (get_property technicalContact ''organization'') of
           None \<Rightarrow> DEFAULT_FALLBACK_VALUE
         | Some organizationName \<Rightarrow>
             if truthy organizationName
             then or_default organizationName DEFAULT_FALLBACK_VALUE
             else
               (case optional_trim (get_property technicalContact ''name'') of
                  None \<Rightarrow> DEFAULT_FALLBACK_VALUE
                | Some individualName \<Rightarrow>
                    or_default individualName DEFAULT_FALLBACK_VALUE)))"

definition getAdministrativeContactName_part003 :: "json_value \<Rightarrow> string" where
  "getAdministrativeContactName_part003 administrativeContact =
     (if \<not> isObject administrativeContact then DEFAULT_FALLBACK_VALUE
      else
        (case optional_trim (get_property administrativeContact ''organization'') of
           None \<Rightarrow> DEFAULT_FALLBACK_VALUE
         | Some organizationName \<Rightarrow>
             if truthy organizationName
             then or_default organizationName DEFAULT_FALLBACK_VALUE
             else
               (case optional_trim (get_property administrativeContact ''name'') of
                  None \<Rightarrow> DEFAULT_FALLBACK_VALUE
                | Some individualName \<Rightarrow>
                    or_default individualName DEFAULT_FALLBACK_VALUE)))"

section \<open>HTTP values shared by the route handlers\<close>

text \<open>
  \<open>NextResponse.json(value, {status})\<close> is a status and a JSON value. The \<open>timestamp\<close>
  fields, which read the wall clock, are left out of the JSON values.
\<close>

datatype json_body =
    ErrorJson string
  | DomainJson DomainInformation
  | ContactJson ContactInformation
  | AiJson string

datatype fetch_error = AbortError | ENOTFOUND | ECONNREFUSED | OtherFetchError

text \<open>
  Of the body of the upstream response the handler reads two properties: \<open>WhoisRecord\<close>,
  absent or any JSON value, and \<open>ErrorMessage\<close>.
\<close>

record WhoisData =
  WhoisRecord :: "json_value option"
  ErrorMessage :: "string option"

datatype parsed_json =
    NotAnObject
  | Object WhoisData

datatype json_result =
    JsonSyntaxError
  | JsonValue parsed_json

record Response =
  status :: nat
  statusText :: string
  json :: json_result

datatype fetch_result =
    Rejected fetch_error
  | Resolved Response

record NextRequest =
  domain_param :: "string option"
  type_param :: "string option"

record NextResponse =
  status :: nat
  body :: json_body

definition NextResponse_json :: "json_body \<Rightarrow> nat \<Rightarrow> NextResponse" where
  "NextResponse_json b s = \<lparr>NextResponse.status = s, body = b\<rparr>"

section \<open>The WHOIS lookup handler (\<open>src/app/api/domain-lookup/route.ts\<close>)\<close>

text \<open>
  The handler reads the two query parameters (\<open>searchParams.get\<close> gives a string or
  \<open>null\<close>) and the environment variable, and calls \<open>fetch\<close> once. \<open>fetch\<close> is a
  parameter of the model: a function of the \<open>domainName\<close> and \<open>apiKey\<close> of the request
  body (the URL, the headers and \<open>outputFormat\<close> are constants) that is rejected with an
  error or resolved with a response. The abort after 30 seconds is the rejection with
  \<open>AbortError\<close>. Every early \<open>return\<close> of a response is a left injection.
\<close>

definition validateParams :: "string option \<Rightarrow> string option \<Rightarrow> NextResponse + string \<times> string" where
  \<comment> \<open>the checks of the \<open>domain\<close> and \<open>type\<close> parameters\<close>
  "validateParams domain type =
     (case domain of
        None \<Rightarrow> Inl (NextResponse_json (ErrorJson ''Domain parameter is required'') 400)
      | Some d \<Rightarrow>
          if d = [] then
            Inl (NextResponse_json (ErrorJson ''Domain parameter is required'') 400)
          else if length (trim d) = 0 then
            Inl (NextResponse_json
                   (ErrorJson ''Domain parameter must be a non-empty string'') 400)
          else if length d > 253 then
            Inl (NextResponse_json
                   (ErrorJson ''Domain name is too long (maximum 253 characters)'') 400)
          else
            (case type of
               None \<Rightarrow> Inl (NextResponse_json (ErrorJson ''Type parameter is required'') 400)
             | Some ty \<Rightarrow>
                 if ty = [] then
                   Inl (NextResponse_json (ErrorJson ''Type parameter is required'') 400)
                 else if ty \<notin> set [''domain'', ''contact''] then
                   Inl (NextResponse_json
                          (ErrorJson (''Type parameter must be 'domain' or 'contact'' @ [CHR 0x27]))
                          400)
                 else Inr (d, ty)))"

definition stripProtocol :: "string \<Rightarrow> string" where
  \<comment> \<open>\<open>.replace(/^https?:\\/\\//, \"\")\<close>: the pattern has no \<open>i\<close> flag\<close>
  "stripProtocol s =
     (if startsWith s ''http://'' then drop 7 s
      else if startsWith s ''https://'' then drop 8 s
      else s)"

definition domainChar :: "char \<Rightarrow> bool" where
  \<comment> \<open>the character class \<open>[a-z0-9.-]\<close>\<close>
  "domainChar c =
     (let n = of_char c :: nat
      in (97 \<le> n \<and> n \<le> 122) \<or> (48 \<le> n \<and> n \<le> 57) \<or> c = CHR ''.'' \<or> c = CHR ''-'')"

definition domainRegex_test :: "string \<Rightarrow> bool" where
  \<comment> \<open>\<open>/^[a-z0-9.-]+$/.test(s)\<close>\<close>
  "domainRegex_test s = (s \<noteq> [] \<and> list_all domainChar s)"

definition cleanDomainOf :: "string \<Rightarrow> string" where
  "cleanDomainOf domain = trim (toLowerCase (split_first (stripProtocol domain) CHR ''/''))"

definition validateDomain :: "string \<Rightarrow> string + string" where
  \<comment> \<open>the inner \<open>try\<close> block: the message of the thrown \<open>Error\<close>, or the clean domain\<close>
  "validateDomain domain =
     (if cleanDomainOf domain = [] then Inl ''Invalid domain format''
      else if \<not> String_includes (cleanDomainOf domain) ''.''
              \<or> startsWith (cleanDomainOf domain) ''.''
              \<or> endsWith (cleanDomainOf domain) ''.''
      then Inl ''Invalid domain format''
      else if \<not> domainRegex_test (cleanDomainOf domain)
      then Inl ''Domain contains invalid characters''
      else Inr (cleanDomainOf domain))"

definition fetchErrorResponse :: "fetch_error \<Rightarrow> NextResponse" where
  "fetchErrorResponse fetchError =
     (if fetchError = AbortError then
        NextResponse_json
          (ErrorJson ''Request timeout - WHOIS service took too long to respond'') 504
      else if fetchError = ENOTFOUND \<or> fetchError = ECONNREFUSED then
        NextResponse_json (ErrorJson ''WHOIS service is currently unavailable'') 503
      else NextResponse_json (ErrorJson ''Failed to connect to WHOIS service'') 503)"

definition ok :: "Response \<Rightarrow> bool" where
  "ok response = (200 \<le> Response.status response \<and> Response.status response \<le> 299)"

definition httpErrorResponse :: "Response \<Rightarrow> NextResponse" where
  \<comment> \<open>the \<open>switch\<close> on \<open>response.status\<close>\<close>
  "httpErrorResponse response =
     (if Response.status response = 400 then
        NextResponse_json (ErrorJson ''Invalid domain name or request format'') 400
      else if Response.status response = 401 then
        NextResponse_json (ErrorJson ''WHOIS API authentication failed'') 500
      else if Response.status response = 403 then
        NextResponse_json (ErrorJson ''WHOIS API access forbidden'') 500
      else if Response.status response = 429 then
        NextResponse_json
          (ErrorJson ''WHOIS API rate limit exceeded. Please try again later.'') 429
      else if Response.status response = 500 \<or> Response.status response = 502
              \<or> Response.status response = 503 then
        NextResponse_json (ErrorJson ''WHOIS service is temporarily unavailable'') 503
      else
        NextResponse_json (ErrorJson (''WHOIS service error: '' @ statusText response)) 500)"

definition hostNamesOf :: "json_value \<Rightarrow> json_value" where
  \<comment> \<open>\<open>whoisRecord.nameServers?.hostNames || []\<close>; an array is truthy, also when empty\<close>
  "hostNamesOf whoisRecord =
     or_json (get_property (get_property whoisRecord ''nameServers'') ''hostNames'') (JArr [])"

definition domainInfo ::
  "(string \<Rightarrow> int option) \<Rightarrow> json_value \<Rightarrow> string \<Rightarrow> DomainInformation" where
  "domainInfo Date_parse whoisRecord cleanDomain =
     \<lparr>domainName = or_json (get_property whoisRecord ''domainName'') (JStr cleanDomain),
      registrar = or_json (get_property whoisRecord ''registrarName'') (JStr ''N/A''),
      registrationDate = formatDate_part003 Date_parse (get_property whoisRecord ''createdDate''),
      expirationDate = formatDate_part003 Date_parse (get_property whoisRecord ''expiresDate''),
      estimatedDomainAge = or_json (get_property whoisRecord ''estimatedDomainAge'') (JNum 0),
      hostnames = formatHostnames_part003 (hostNamesOf whoisRecord)\<rparr>"

definition contactInfo :: "json_value \<Rightarrow> ContactInformation" where
  "contactInfo whoisRecord =
     \<lparr>registrantName = getRegistrantName_part003 (get_property whoisRecord ''registrant''),
      technicalContactName =
        getTechnicalContactName_part003 (get_property whoisRecord ''technicalContact''),
      administrativeContactName =
        getAdministrativeContactName_part003 (get_property whoisRecord ''administrativeContact''),
      contactEmail = or_json (get_property whoisRecord ''contactEmail'') (JStr ''N/A'')\<rparr>"

definition processRecord ::
  "(string \<Rightarrow> int option) \<Rightarrow> string \<Rightarrow> string \<Rightarrow> WhoisData \<Rightarrow> NextResponse" where
  \<comment> \<open>from \<open>const whoisRecord = data.WhoisRecord\<close> on; \<open>type\<close> is one of the two kinds here\<close>
  "processRecord Date_parse type cleanDomain data =
     (case (case WhoisRecord data of
              None \<Rightarrow> None
            | Some v \<Rightarrow> if truthy_json v then Some v else None) of
        None \<Rightarrow>
          (case ErrorMessage data of
             None \<Rightarrow> NextResponse_json (ErrorJson ''No WHOIS record found for this domain'') 404
           | Some m \<Rightarrow>
               if m \<noteq> [] then
                 NextResponse_json (ErrorJson (''WHOIS lookup failed: '' @ m)) 400
               else
                 NextResponse_json (ErrorJson ''No WHOIS record found for this domain'') 404)
      | Some whoisRecord \<Rightarrow>
          if type = ''domain'' then
            NextResponse_json (DomainJson (domainInfo Date_parse whoisRecord cleanDomain)) 200
          else
            NextResponse_json (ContactJson (contactInfo whoisRecord)) 200)"

definition handleResponse ::
  "(string \<Rightarrow> int option) \<Rightarrow> string \<Rightarrow> string \<Rightarrow> Response \<Rightarrow> NextResponse" where
  \<comment> \<open>from the check of \<open>response.ok\<close> on\<close>
  "handleResponse Date_parse type cleanDomain response =
     (if \<not> ok response then httpErrorResponse response
      else
        (case json response of
           JsonSyntaxError \<Rightarrow>
             NextResponse_json (ErrorJson ''Invalid response format from WHOIS service'') 500
         | JsonValue NotAnObject \<Rightarrow>
             NextResponse_json (ErrorJson ''Invalid response from WHOIS service'') 500
         | JsonValue (Object data) \<Rightarrow> processRecord Date_parse type cleanDomain data))"

definition GET ::
  "(string \<Rightarrow> int option) \<Rightarrow> string option \<Rightarrow> (string \<Rightarrow> string \<Rightarrow> fetch_result)
     \<Rightarrow> NextRequest \<Rightarrow> NextResponse" where
  "GET Date_parse WHOIS_API_KEY fetch request =
     (case (if truthy WHOIS_API_KEY then WHOIS_API_KEY else None) of
        None \<Rightarrow>
          NextResponse_json (ErrorJson ''WHOIS service is not properly configured'') 500
      | Some apiKey \<Rightarrow>
          (case validateParams (domain_param request) (type_param request) of
             Inl response \<Rightarrow> response
           | Inr (domain, type) \<Rightarrow>
               (case validateDomain domain of
                  Inl domainError \<Rightarrow>
                    NextResponse_json (ErrorJson ''Invalid domain format'') 400
                | Inr cleanDomain \<Rightarrow>
                    (case fetch cleanDomain apiKey of
                       Rejected fetchError \<Rightarrow> fetchErrorResponse fetchError
                     | Resolved response \<Rightarrow>
                         handleResponse Date_parse type cleanDomain response))))"

section \<open>The suggestion handler (\<open>src/app/api/ai-lookup/route.ts\<close>)\<close>

text \<open>
  The values the handler reads out of untyped JSON are an absent value, a string, or a value
  of another type, of which only the truthiness is observed. The generation client is a
  parameter of the model: the constructor \<open>GoogleGenAI\<close> throws (\<open>None\<close>) or gives a
  client, and \<open>generateContent\<close> of a client throws an error with an optional \<open>status\<close>
  or returns. Its prompt is the fixed system prompt, \<open>". User Prompt: "\<close> and the trimmed
  description; the client of the model is a function of the trimmed description, the only
  part that varies.
\<close>

datatype js_value =
    Undefined
  | Other bool
  | Str string

datatype request_json =
    RequestSyntaxError
  | RequestNull
  | RequestBody js_value

record AiRequest =
  content_type :: "string option"
  request_json :: request_json

datatype text_result =
    TextThrows
  | TextValue js_value

datatype ai_response =
    NoResponse
  | AiResponse text_result

datatype ai_result =
    AiThrows "nat option"
  | AiReturns ai_response

definition unexpectedError :: NextResponse where
  \<comment> \<open>the outer \<open>catch\<close>\<close>
  "unexpectedError =
     NextResponse_json
       (ErrorJson ''An unexpected error occurred while processing your request'') 500"

definition validateDescription :: "request_json \<Rightarrow> NextResponse + string" where
  \<comment> \<open>from \<open>request.json()\<close> to the length check of the description\<close>
  "validateDescription j =
     (case j of
        RequestSyntaxError \<Rightarrow>
          Inl (NextResponse_json (ErrorJson ''Invalid JSON format in request body'') 400)
      | RequestNull \<Rightarrow> Inl unexpectedError
      | RequestBody Undefined \<Rightarrow>
          Inl (NextResponse_json (ErrorJson ''Description field is required'') 400)
      | RequestBody (Other t) \<Rightarrow>
          if \<not> t then
            Inl (NextResponse_json (ErrorJson ''Description field is required'') 400)
          else Inl (NextResponse_json (ErrorJson ''Description must be a string'') 400)
      | RequestBody (Str description) \<Rightarrow>
          if description = [] then
            Inl (NextResponse_json (ErrorJson ''Description field is required'') 400)
          else if length (trim description) = 0 then
            Inl (NextResponse_json (ErrorJson ''Description cannot be empty'') 400)
          else if length description > 1000 then
            Inl (NextResponse_json
                   (ErrorJson ''Description is too long (maximum 1000 characters)'') 400)
          else Inr description)"

definition aiErrorResponse :: "nat option \<Rightarrow> NextResponse" where
  \<comment> \<open>the \<open>catch\<close> around \<open>generateContent\<close>, on \<open>aiError?.status\<close>\<close>
  "aiErrorResponse st =
     (if st = Some 429 then
        NextResponse_json
          (ErrorJson ''AI service is currently busy. Please try again later.'') 429
      else if st = Some 401 \<or> st = Some 403 then
        NextResponse_json (ErrorJson ''AI service authentication failed'') 500
      else if st = Some 400 then
        NextResponse_json (ErrorJson ''Invalid request to AI service'') 400
      else NextResponse_json (ErrorJson ''AI service is temporarily unavailable'') 503)"

definition validateText :: "js_value \<Rightarrow> NextResponse" where
  \<comment> \<open>from \<open>if (!responseText || typeof responseText !== \"string\")\<close> on\<close>
  "validateText responseText =
     (case responseText of
        Undefined \<Rightarrow> NextResponse_json (ErrorJson ''AI service returned invalid response'') 500
      | Other t \<Rightarrow> NextResponse_json (ErrorJson ''AI service returned invalid response'') 500
      | Str text \<Rightarrow>
          if text = [] then
            NextResponse_json (ErrorJson ''AI service returned invalid response'') 500
          else if length (trim text) = 0 then
            NextResponse_json (ErrorJson ''AI service returned empty response'') 500
          else NextResponse_json (AiJson (trim text)) 200)"

definition validateAiResponse :: "ai_response \<Rightarrow> NextResponse" where
  \<comment> \<open>from \<open>if (!response)\<close> on\<close>
  "validateAiResponse response =
     (case response of
        NoResponse \<Rightarrow> NextResponse_json (ErrorJson ''AI service returned no response'') 500
      | AiResponse TextThrows \<Rightarrow>
          NextResponse_json (ErrorJson ''Failed to process AI response'') 500
      | AiResponse (TextValue responseText) \<Rightarrow> validateText responseText)"

definition POST ::
  "string option \<Rightarrow> (string \<Rightarrow> (string \<Rightarrow> ai_result) option) \<Rightarrow> AiRequest \<Rightarrow> NextResponse" where
  "POST GEMINI_API_KEY GoogleGenAI request =
     (case content_type request of
        None \<Rightarrow> NextResponse_json (ErrorJson ''Content-Type must be application/json'') 400
      | Some contentType \<Rightarrow>
          if \<not> String_includes contentType ''application/json'' then
            NextResponse_json (ErrorJson ''Content-Type must be application/json'') 400
          else
            (case validateDescription (request_json request) of
               Inl response \<Rightarrow> response
             | Inr description \<Rightarrow>
                 (case (if truthy GEMINI_API_KEY then GEMINI_API_KEY else None) of
                    None \<Rightarrow>
                      NextResponse_json (ErrorJson ''AI service is not properly configured'') 500
                  | Some API_KEY \<Rightarrow>
                      (case GoogleGenAI API_KEY of
                         None \<Rightarrow>
                           NextResponse_json (ErrorJson ''Failed to initialize AI service'') 500
                       | Some generateContent \<Rightarrow>
                           (case generateContent (trim description) of
                              AiThrows st \<Rightarrow> aiErrorResponse st
                            | AiReturns response \<Rightarrow> validateAiResponse response)))))"

section \<open>Reference definitions in the words of the specification\<close>

definition blank :: "string \<Rightarrow> bool" where
  "blank s = (trim s = [])"

fun strings_of :: "json_value list \<Rightarrow> string list" where
  \<comment> \<open>the entries that are strings\<close>
  "strings_of [] = []"
| "strings_of (JStr s # vs) = s # strings_of vs"
| "strings_of (v # vs) = strings_of vs"

definition formatHostnames_ref :: "json_value list option \<Rightarrow> string" where
  \<comment> \<open>filter out non-string and blank entries; fallback when nothing remains; join;
      truncate beyond 25\<close>
  "formatHostnames_ref l =
     (let survivors =
            (case l of None \<Rightarrow> [] | Some hs \<Rightarrow> filter (\<lambda>h. \<not> blank h) (strings_of hs))
      in if survivors = [] then ''N/A''
         else
           let joined = Array_join survivors '', ''
           in if length joined > 25 then take 22 joined @ ''...'' else joined)"

definition resolveContactName_ref :: "Contact option \<Rightarrow> string" where
  \<comment> \<open>organization if non-blank, else name if non-blank, else the fallback token\<close>
  "resolveContactName_ref contact =
     (case contact of
        None \<Rightarrow> ''N/A''
      | Some c \<Rightarrow>
          (case organization c of
             Some org \<Rightarrow>
               if \<not> blank org then org
               else (case name c of
                       Some nm \<Rightarrow> if \<not> blank nm then nm else ''N/A''
                     | None \<Rightarrow> ''N/A'')
           | None \<Rightarrow>
               (case name c of
                  Some nm \<Rightarrow> if \<not> blank nm then nm else ''N/A''
                | None \<Rightarrow> ''N/A'')))"

definition contact_json :: "Contact \<Rightarrow> json_value" where
  \<comment> \<open>a contact of the declared type as the JSON object it is at run time\<close>
  "contact_json c =
     JObj ((case organization c of None \<Rightarrow> [] | Some org \<Rightarrow> [(''organization'', JStr org)])
           @ (case name c of None \<Rightarrow> [] | Some nm \<Rightarrow> [(''name'', JStr nm)]))"

section \<open>Host-name formatting\<close>

lemma valid_hostname_strings:
  "map stringValue (filter isValidHostname hs) = filter (\<lambda>h. \<not> blank h) (strings_of hs)"
  by (induction hs rule: strings_of.induct) (simp_all add: blank_def)

lemma no_valid_hostname:
  "filter isValidHostname hs = [] \<longleftrightarrow> filter (\<lambda>h. \<not> blank h) (strings_of hs) = []"
  using valid_hostname_strings [of hs] by (metis map_is_Nil_conv)

lemma formatHostnames_part003_array:
  "formatHostnames_part003 (JArr hs) = formatHostnames_ref (Some hs)"
proof (cases "filter isValidHostname hs = []")
  case True
  then show ?thesis
    using no_valid_hostname [of hs]
    by (simp add: formatHostnames_part003_def formatHostnames_ref_def DEFAULT_FALLBACK_VALUE_def)
next
  case False
  then have "hs \<noteq> []" by auto
  then show ?thesis
    using False no_valid_hostname [of hs]
    by (simp add: formatHostnames_part003_def formatHostnames_ref_def Let_def
        valid_hostname_strings substring_def DEFAULT_FALLBACK_VALUE_def
        MAX_HOSTNAME_DISPLAY_LENGTH_def HOSTNAME_TRUNCATION_SUFFIX_def)
qed

lemma formatHostnames_part003_not_array:
  "(\<forall>hs. v \<noteq> JArr hs) \<Longrightarrow> formatHostnames_part003 v = ''N/A''"
  by (cases v) (simp_all add: formatHostnames_part003_def DEFAULT_FALLBACK_VALUE_def)

text \<open>
  Claim C1. \<open>formatHostnames\<close>, in the revision that filters, is the reference definition
  of the specification on every possibly-absent list: entries that are not strings and
  blank entries are dropped; an absent list, a value that is not a list, an empty list and
  a list with no entry left give the fallback token \<open>N/A\<close>; otherwise the entries left
  are joined with \<open>", "\<close>, and the joined string is returned as it is when it has at most
  25 characters and cut to its first 22 characters followed by \<open>...\<close>, 25 characters in
  all, exactly when it is longer.
\<close>

theorem formatHostnames_part003_reference:
  "formatHostnames_part003 (case l of None \<Rightarrow> JNull | Some hs \<Rightarrow> JArr hs)
     = formatHostnames_ref l
   \<and> ((\<forall>hs. v \<noteq> JArr hs) \<longrightarrow> formatHostnames_part003 v = ''N/A'')
   \<and> (filter (\<lambda>h. \<not> blank h) (strings_of hs) = []
        \<longrightarrow> formatHostnames_part003 (JArr hs) = ''N/A'')
   \<and> (filter (\<lambda>h. \<not> blank h) (strings_of hs) \<noteq> []
        \<and> length (Array_join (filter (\<lambda>h. \<not> blank h) (strings_of hs)) '', '') \<le> 25
        \<longrightarrow> formatHostnames_part003 (JArr hs)
            = Array_join (filter (\<lambda>h. \<not> blank h) (strings_of hs)) '', '')
   \<and> (length (Array_join (filter (\<lambda>h. \<not> blank h) (strings_of hs)) '', '') > 25
        \<longrightarrow> formatHostnames_part003 (JArr hs)
            = take 22 (Array_join (filter (\<lambda>h. \<not> blank h) (strings_of hs)) '', '') @ ''...''
            \<and> length (formatHostnames_part003 (JArr hs)) = 25)"
proof -
  have whole: "formatHostnames_part003 (case l of None \<Rightarrow> JNull | Some hs \<Rightarrow> JArr hs)
      = formatHostnames_ref l"
  proof (cases l)
    case None
    then show ?thesis
      by (simp add: formatHostnames_part003_def formatHostnames_ref_def
          DEFAULT_FALLBACK_VALUE_def)
  next
    case (Some hs)
    then show ?thesis by (simp add: formatHostnames_part003_array)
  qed
  have long: "filter (\<lambda>h. \<not> blank h) (strings_of hs) \<noteq> []"
    if "length (Array_join (filter (\<lambda>h. \<not> blank h) (strings_of hs)) '', '') > 25"
    using that by auto
  show ?thesis
    using whole formatHostnames_part003_not_array [of v] long
    by (auto simp: formatHostnames_part003_array formatHostnames_ref_def Let_def)
qed

theorem formatHostnames_part003_reference_witness:
  "formatHostnames_part003 (JArr [JStr ''a.com'', JStr ''b.com'']) = ''a.com, b.com''
   \<and> formatHostnames_part003 (JArr [JStr ''a.com'', JStr '''', JNum 7, JStr ''  ''])
       = ''a.com''
   \<and> formatHostnames_part003 (JArr []) = ''N/A''
   \<and> formatHostnames_part003 JNull = ''N/A''
   \<and> formatHostnames_part003 (JArr [JStr '''']) = ''N/A''
   \<and> formatHostnames_part003 (JArr [JStr ''ns1.example.com'', JStr ''ns2.example.com''])
       = ''ns1.example.com, ns2.e...''
   \<and> length (formatHostnames_part003
         (JArr [JStr ''ns1.example.com'', JStr ''ns2.example.com''])) = 25"
proof -
  have b: "\<not> blank ''a.com''" "\<not> blank ''b.com''" "blank ''''" "blank ''  ''"
    "\<not> blank ''ns1.example.com''" "\<not> blank ''ns2.example.com''"
    by (simp_all add: blank_def trim_def isWhiteSpace_def)
  have null: "\<forall>hs. JNull \<noteq> JArr hs" by simp
  show ?thesis
    using null
      formatHostnames_part003_reference [of "Some [JStr ''a.com'', JStr ''b.com'']" JNull
        "[JStr ''a.com'', JStr ''b.com'']"]
      formatHostnames_part003_reference [of "Some [JStr ''a.com'', JStr '''', JNum 7, JStr ''  '']"
        JNull "[JStr ''a.com'', JStr '''', JNum 7, JStr ''  '']"]
      formatHostnames_part003_reference [of "Some []" JNull "[]"]
      formatHostnames_part003_reference [of "Some [JStr '''']" JNull "[JStr '''']"]
      formatHostnames_part003_reference [of "Some [JStr ''ns1.example.com'', JStr ''ns2.example.com'']"
        JNull "[JStr ''ns1.example.com'', JStr ''ns2.example.com'']"]
    by (auto simp: b)
qed

text \<open>
  The short revision has no filter: it joins the list as it is, and agrees with the
  documented revision on the lists that have no blank entry.
\<close>

lemma formatHostnames_short_revision_blank:
  "formatHostnames (Some [''a.com'', '''']) = ''a.com, ''
   \<and> formatHostnames_part003 (JArr [JStr ''a.com'', JStr '''']) = ''a.com''"
  by (simp add: formatHostnames_def formatHostnames_part003_def trim_def isWhiteSpace_def
      DEFAULT_FALLBACK_VALUE_def MAX_HOSTNAME_DISPLAY_LENGTH_def)

lemma formatHostnames_revisions_agree:
  assumes "\<forall>h\<in>set hs. \<not> blank h"
  shows "formatHostnames (Some hs) = formatHostnames_part003 (JArr (map JStr hs))"
proof -
  have s: "strings_of (map JStr hs) = hs" by (induction hs) simp_all
  have f: "filter (\<lambda>h. \<not> blank h) hs = hs" using assms by (induction hs) auto
  show ?thesis
    by (simp add: formatHostnames_part003_array formatHostnames_ref_def s f
        formatHostnames_def substring_def Let_def)
qed

section \<open>Contact names\<close>

lemma contact_json_properties:
  "get_property (contact_json c) ''organization''
     = (case organization c of None \<Rightarrow> JNull | Some org \<Rightarrow> JStr org)"
  "get_property (contact_json c) ''name''
     = (case name c of None \<Rightarrow> JNull | Some nm \<Rightarrow> JStr nm)"
  "isObject (contact_json c)"
  by (simp_all add: contact_json_def split: option.splits)

text \<open>
  Claim C9, as amended. Each of the three resolvers returns the organization of the
  contact with its surrounding white space removed when the organization is not blank,
  else the name with its surrounding white space removed when the name is not blank, else
  the fallback token \<open>N/A\<close>, which is also the result for an absent contact. The three
  resolvers are extensionally equal, on every JSON value. They agree with the reference
  definition on the contacts whose fields have no surrounding white space.
\<close>

theorem contact_name_resolution_trimmed:
  "getRegistrantName_part003 v = getTechnicalContactName_part003 v
   \<and> getTechnicalContactName_part003 v = getAdministrativeContactName_part003 v
   \<and> getRegistrantName_part003 JNull = ''N/A''
   \<and> (organization c = Some org \<and> \<not> blank org
        \<longrightarrow> getRegistrantName_part003 (contact_json c) = trim org)
   \<and> ((organization c = None \<or> (\<exists>s. organization c = Some s \<and> blank s))
        \<and> name c = Some nm \<and> \<not> blank nm
        \<longrightarrow> getRegistrantName_part003 (contact_json c) = trim nm)
   \<and> ((organization c = None \<or> (\<exists>s. organization c = Some s \<and> blank s))
        \<and> (name c = None \<or> (\<exists>s. name c = Some s \<and> blank s))
        \<longrightarrow> getRegistrantName_part003 (contact_json c) = ''N/A'')
   \<and> ((\<forall>s. organization c = Some s \<longrightarrow> trim s = s)
        \<and> (\<forall>s. name c = Some s \<longrightarrow> trim s = s)
        \<longrightarrow> getRegistrantName_part003 (contact_json c) = resolveContactName_ref (Some c))"
proof -
  have equal: "getRegistrantName_part003 v = getTechnicalContactName_part003 v"
    "getTechnicalContactName_part003 v = getAdministrativeContactName_part003 v"
    by (simp_all add: getRegistrantName_part003_def getTechnicalContactName_part003_def
        getAdministrativeContactName_part003_def)
  have absent: "getRegistrantName_part003 JNull = ''N/A''"
    by (simp add: getRegistrantName_part003_def DEFAULT_FALLBACK_VALUE_def)
  have typed: "getRegistrantName_part003 (contact_json c)
      = (case organization c of
           Some org \<Rightarrow>
             if \<not> blank org then trim org
             else (case name c of
                     Some nm \<Rightarrow> if \<not> blank nm then trim nm else ''N/A''
                   | None \<Rightarrow> ''N/A'')
         | None \<Rightarrow>
             (case name c of
                Some nm \<Rightarrow> if \<not> blank nm then trim nm else ''N/A''
              | None \<Rightarrow> ''N/A''))"
    by (simp add: getRegistrantName_part003_def contact_json_properties truthy_def
        or_default_def blank_def DEFAULT_FALLBACK_VALUE_def split: option.splits)
  show ?thesis
    unfolding typed using equal absent
    by (auto simp: resolveContactName_ref_def split: option.splits)
qed

theorem contact_name_resolution_trimmed_witness:
  "getRegistrantName_part003 (contact_json \<lparr>organization = Some ''X'', name = Some ''Y''\<rparr>)
     = ''X''
   \<and> getRegistrantName_part003 (contact_json \<lparr>organization = Some '' '', name = Some ''Y''\<rparr>)
       = ''Y''
   \<and> getRegistrantName_part003 (contact_json \<lparr>organization = None, name = Some ''Y''\<rparr>)
       = ''Y''
   \<and> getRegistrantName_part003 (contact_json \<lparr>organization = None, name = None\<rparr>) = ''N/A''
   \<and> getRegistrantName_part003 (contact_json \<lparr>organization = Some '' X '', name = None\<rparr>)
       = ''X''
   \<and> getTechnicalContactName_part003
         (contact_json \<lparr>organization = Some ''X'', name = Some ''Y''\<rparr>) = ''X''
   \<and> getAdministrativeContactName_part003
         (contact_json \<lparr>organization = Some ''X'', name = Some ''Y''\<rparr>) = ''X''
   \<and> resolveContactName_ref (Some \<lparr>organization = Some ''X'', name = Some ''Y''\<rparr>) = ''X''"
proof -
  have b: "\<not> blank ''X''" "\<not> blank ''Y''" "blank '' ''" "\<not> blank '' X ''"
    by (simp_all add: blank_def trim_def isWhiteSpace_def)
  have t: "trim ''X'' = ''X''" "trim ''Y'' = ''Y''" "trim '' X '' = ''X''"
    by (simp_all add: trim_def isWhiteSpace_def)
  show ?thesis
    using
      contact_name_resolution_trimmed [of
        "contact_json \<lparr>organization = Some ''X'', name = Some ''Y''\<rparr>"
        "\<lparr>organization = Some ''X'', name = Some ''Y''\<rparr>" "''X''" "''Y''"]
      contact_name_resolution_trimmed [of JNull
        "\<lparr>organization = Some '' '', name = Some ''Y''\<rparr>" "'' ''" "''Y''"]
      contact_name_resolution_trimmed [of JNull
        "\<lparr>organization = None, name = Some ''Y''\<rparr>" "''X''" "''Y''"]
      contact_name_resolution_trimmed [of JNull
        "\<lparr>organization = None, name = None\<rparr>" "''X''" "''Y''"]
      contact_name_resolution_trimmed [of JNull
        "\<lparr>organization = Some '' X '', name = None\<rparr>" "'' X ''" "''Y''"]
    by (auto simp: b t)
qed

text \<open>
  The claim as stated fails on an organization with surrounding white space: the
  reference definition returns the organization as it is, the resolver returns it
  trimmed.
\<close>

theorem contact_name_untrimmed_counterexample:
  "getRegistrantName_part003 (contact_json \<lparr>organization = Some '' X '', name = None\<rparr>)
     = ''X''
   \<and> resolveContactName_ref (Some \<lparr>organization = Some '' X '', name = None\<rparr>) = '' X ''"
  by (simp add: getRegistrantName_part003_def contact_json_def truthy_def or_default_def
      resolveContactName_ref_def blank_def trim_def isWhiteSpace_def)

text \<open>
  A value of the wrong type in either field makes \<open>?.trim()\<close> throw, which gives the
  fallback token; a value that is not an object gives the fallback token too.
\<close>

lemma contact_name_wrong_type:
  "getRegistrantName_part003 (JObj [(''organization'', JNum 7), (''name'', JStr ''Y'')])
     = ''N/A''
   \<and> getRegistrantName_part003 (JStr ''Y'') = ''N/A''"
  by (simp add: getRegistrantName_part003_def DEFAULT_FALLBACK_VALUE_def)

text \<open>
  The short revision tests its fields for truthiness and neither trims nor looks for
  blanks: it returns an organization made of one space as it is.
\<close>

lemma contact_name_short_revision_blank:
  "getRegistrantName (Some \<lparr>organization = Some '' '', name = Some ''Y''\<rparr>) = '' ''
   \<and> getRegistrantName_part003 (contact_json \<lparr>organization = Some '' '', name = Some ''Y''\<rparr>)
       = ''Y''"
  by (simp add: getRegistrantName_def or_else_def or_default_def truthy_def
      getRegistrantName_part003_def contact_json_def trim_def isWhiteSpace_def)

section \<open>Order of the checks in the WHOIS handler\<close>

text \<open>
  Claim C10. The handler tests the API key before it validates the \<open>domain\<close> and \<open>type\<close>
  parameters: without a key (absent or empty) every request is answered with status 500 and
  the configuration error, whatever its parameters and whatever \<open>fetch\<close> would do, also a
  request that a configured handler answers with 400.
\<close>

theorem GET_key_checked_first:
  "\<not> truthy WHOIS_API_KEY \<Longrightarrow>
     GET Date_parse WHOIS_API_KEY fetch request
       = NextResponse_json (ErrorJson ''WHOIS service is not properly configured'') 500"
  by (simp add: GET_def)

theorem GET_key_checked_first_witness:
  "\<not> truthy None
   \<and> GET (\<lambda>s. None) None (\<lambda>d k. Rejected AbortError)
         \<lparr>domain_param = None, type_param = Some ''bogus''\<rparr>
       = NextResponse_json (ErrorJson ''WHOIS service is not properly configured'') 500
   \<and> NextResponse.status
        (GET (\<lambda>s. None) (Some ''key'') (\<lambda>d k. Rejected AbortError)
           \<lparr>domain_param = None, type_param = Some ''bogus''\<rparr>) = 400"
proof -
  have h: "\<not> truthy None" by (simp add: truthy_def)
  have other: "NextResponse.status
        (GET (\<lambda>s. None) (Some ''key'') (\<lambda>d k. Rejected AbortError)
           \<lparr>domain_param = None, type_param = Some ''bogus''\<rparr>) = 400"
    by (simp add: GET_def truthy_def validateParams_def NextResponse_json_def)
  show ?thesis
    using h other GET_key_checked_first [OF h, of "\<lambda>s. None" "\<lambda>d k. Rejected AbortError"
        "\<lparr>domain_param = None, type_param = Some ''bogus''\<rparr>"]
    by simp
qed

section \<open>The WHOIS gateway\<close>

text \<open>Evaluation of the string built-ins, and a request that passes both validations.\<close>

lemmas string_defs = trim_def isWhiteSpace_def toLowerCase_def toLowerCase_char_def
  isUpperCase_def split_first_def startsWith_def endsWith_def stripProtocol_def
  cleanDomainOf_def domainRegex_test_def domainChar_def

lemma validateParams_example:
  "validateParams (Some ''example.com'') (Some ''domain'') = Inr (''example.com'', ''domain'')"
  by (simp add: validateParams_def trim_def isWhiteSpace_def)

lemma validateDomain_example: "validateDomain ''example.com'' = Inr ''example.com''"
  by (simp add: validateDomain_def string_defs)

text \<open>Past the two validations, the handler is the treatment of what \<open>fetch\<close> gives.\<close>

lemma GET_resolved:
  assumes "WHOIS_API_KEY = Some apiKey" and "apiKey \<noteq> []"
    and "validateParams (domain_param request) (type_param request) = Inr (domain, type)"
    and "validateDomain domain = Inr cleanDomain"
    and "fetch cleanDomain apiKey = Resolved response"
  shows "GET Date_parse WHOIS_API_KEY fetch request
           = handleResponse Date_parse type cleanDomain response"
  using assms by (simp add: GET_def truthy_def)

text \<open>
  Claim C6. When the request passes validation and the upstream response is not 2xx, the
  answer is fixed by the upstream status alone: 400 gives 400, 401 and 403 give 500 (the
  authentication messages), 429 gives 429, 500, 502 and 503 give 503, and every other
  status gives 500 with the status text of the provider in the message. The body of the
  upstream response is not read on this path: replacing it by any other body \<open>j\<close> leaves
  the answer unchanged.
\<close>

theorem GET_upstream_status_mapping:
  assumes "WHOIS_API_KEY = Some apiKey" and "apiKey \<noteq> []"
    and "validateParams (domain_param request) (type_param request) = Inr (domain, type)"
    and "validateDomain domain = Inr cleanDomain"
    and "fetch cleanDomain apiKey = Resolved response"
    and "\<not> ok response"
  shows "(Response.status response = 400 \<longrightarrow>
            GET Date_parse WHOIS_API_KEY fetch request
              = NextResponse_json (ErrorJson ''Invalid domain name or request format'') 400)
       \<and> (Response.status response = 401 \<longrightarrow>
            GET Date_parse WHOIS_API_KEY fetch request
              = NextResponse_json (ErrorJson ''WHOIS API authentication failed'') 500)
       \<and> (Response.status response = 403 \<longrightarrow>
            GET Date_parse WHOIS_API_KEY fetch request
              = NextResponse_json (ErrorJson ''WHOIS API access forbidden'') 500)
       \<and> (Response.status response = 429 \<longrightarrow>
            GET Date_parse WHOIS_API_KEY fetch request
              = NextResponse_json
                  (ErrorJson ''WHOIS API rate limit exceeded. Please try again later.'') 429)
       \<and> (Response.status response \<in> {500, 502, 503} \<longrightarrow>
            GET Date_parse WHOIS_API_KEY fetch request
              = NextResponse_json (ErrorJson ''WHOIS service is temporarily unavailable'') 503)
       \<and> (Response.status response \<notin> {400, 401, 403, 429, 500, 502, 503} \<longrightarrow>
            GET Date_parse WHOIS_API_KEY fetch request
              = NextResponse_json
                  (ErrorJson (''WHOIS service error: '' @ statusText response)) 500)
       \<and> GET Date_parse WHOIS_API_KEY (\<lambda>d k. Resolved (response\<lparr>json := j\<rparr>)) request
            = GET Date_parse WHOIS_API_KEY fetch request"
proof -
  have a: "GET Date_parse WHOIS_API_KEY fetch request = httpErrorResponse response"
    using assms by (simp add: GET_resolved handleResponse_def)
  have "\<not> ok (response\<lparr>json := j\<rparr>)"
    using assms(6) by (simp add: ok_def)
  then have b: "GET Date_parse WHOIS_API_KEY (\<lambda>d k. Resolved (response\<lparr>json := j\<rparr>)) request
      = httpErrorResponse (response\<lparr>json := j\<rparr>)"
    using assms(1-4) by (simp add: GET_def truthy_def handleResponse_def)
  have c: "httpErrorResponse (response\<lparr>json := j\<rparr>) = httpErrorResponse response"
    by (simp add: httpErrorResponse_def)
  show ?thesis
    unfolding a b c by (simp add: httpErrorResponse_def)
qed

theorem GET_upstream_status_mapping_witness:
  "GET (\<lambda>s. None) (Some ''key'')
      (\<lambda>d k. Resolved \<lparr>Response.status = 429, statusText = ''Too Many Requests'',
         json = JsonValue (Object \<lparr>WhoisRecord = None, ErrorMessage = Some ''quota''\<rparr>)\<rparr>)
      \<lparr>domain_param = Some ''example.com'', type_param = Some ''domain''\<rparr>
     = NextResponse_json
         (ErrorJson ''WHOIS API rate limit exceeded. Please try again later.'') 429
   \<and> GET (\<lambda>s. None) (Some ''key'')
      (\<lambda>d k. Resolved \<lparr>Response.status = 418, statusText = ''teapot'',
         json = JsonSyntaxError\<rparr>)
      \<lparr>domain_param = Some ''example.com'', type_param = Some ''domain''\<rparr>
     = NextResponse_json (ErrorJson ''WHOIS service error: teapot'') 500"
proof -
  have p: "validateParams
      (domain_param \<lparr>domain_param = Some ''example.com'', type_param = Some ''domain''\<rparr>)
      (type_param \<lparr>domain_param = Some ''example.com'', type_param = Some ''domain''\<rparr>)
      = Inr (''example.com'', ''domain'')"
    by (simp add: validateParams_example)
  have k: "''key'' \<noteq> []" by simp
  have n429: "\<not> ok \<lparr>Response.status = 429, statusText = ''Too Many Requests'',
         json = JsonValue (Object \<lparr>WhoisRecord = None, ErrorMessage = Some ''quota''\<rparr>)\<rparr>"
    by (simp add: ok_def)
  have n418: "\<not> ok \<lparr>Response.status = 418, statusText = ''teapot'', json = JsonSyntaxError\<rparr>"
    by (simp add: ok_def)
  show ?thesis
    using GET_upstream_status_mapping [OF refl k p validateDomain_example refl n429]
      GET_upstream_status_mapping [OF refl k p validateDomain_example refl n418]
    by simp
qed




section \<open>Domain validation\<close>

lemma validateParams_Inl_status:
  "validateParams d t = Inl r \<Longrightarrow> NextResponse.status r = 400"
  by (auto simp: validateParams_def NextResponse_json_def split: option.splits if_splits)

lemma validateParams_Inr_domain:
  "validateParams (Some d) t = Inr (d', ty) \<Longrightarrow> d' = d"
  by (auto simp: validateParams_def split: option.splits if_splits)

lemma validateDomain_Inr:
  "validateDomain d = Inr c \<Longrightarrow>
     c = trim (toLowerCase (split_first (stripProtocol d) CHR ''/'')) \<and> c \<noteq> []
     \<and> list_all domainChar c"
  by (auto simp: validateDomain_def cleanDomainOf_def domainRegex_test_def split: if_splits)

lemma validateDomain_bad_char:
  "\<not> list_all domainChar (cleanDomainOf d) \<Longrightarrow> isl (validateDomain d)"
  by (simp add: validateDomain_def domainRegex_test_def)

text \<open>
  Claim C2, as amended. With the API key configured, every input whose cleaned form (the
  input without a leading lower-case \<open>http://\<close> or \<open>https://\<close>, cut at its first slash,
  lower-cased and trimmed) has a character outside \<open>[a-z0-9.-]\<close> fails the domain
  validation, and the handler answers with status 400. The test is on the cleaned form,
  not on the input: capitals, a scheme, a path and surrounding white space in the input
  are removed before it.
\<close>

theorem GET_rejects_unclean_domain:
  assumes "truthy WHOIS_API_KEY"
    and "domain_param request = Some domain"
    and "\<not> list_all domainChar (cleanDomainOf domain)"
  shows "isl (validateDomain domain)
       \<and> NextResponse.status (GET Date_parse WHOIS_API_KEY fetch request) = 400"
proof -
  have bad: "isl (validateDomain domain)"
    using assms(3) by (rule validateDomain_bad_char)
  obtain apiKey where key: "WHOIS_API_KEY = Some apiKey"
    using assms(1) by (auto simp: truthy_def split: option.splits)
  show ?thesis
  proof (cases "validateParams (domain_param request) (type_param request)")
    case (Inl r)
    then show ?thesis
      using bad assms(1) key validateParams_Inl_status [OF Inl] by (simp add: GET_def)
  next
    case (Inr p)
    obtain d' ty where p: "p = (d', ty)" by (cases p)
    have "d' = domain"
      using Inr assms(2) p validateParams_Inr_domain by simp
    then obtain e where "validateDomain d' = Inl e"
      using bad by (cases "validateDomain d'") auto
    then show ?thesis
      using bad assms(1) key Inr p by (simp add: GET_def NextResponse_json_def)
  qed
qed

theorem GET_rejects_unclean_domain_witness:
  "isl (validateDomain ''exa_mple.com'')
   \<and> NextResponse.status
        (GET (\<lambda>s. None) (Some ''key'') (\<lambda>d k. Rejected OtherFetchError)
           \<lparr>domain_param = Some ''exa_mple.com'', type_param = Some ''domain''\<rparr>) = 400"
proof -
  have k: "truthy (Some ''key'')" by (simp add: truthy_def)
  have d: "domain_param \<lparr>domain_param = Some ''exa_mple.com'', type_param = Some ''domain''\<rparr>
      = Some ''exa_mple.com''"
    by simp
  have c: "\<not> list_all domainChar (cleanDomainOf ''exa_mple.com'')"
    by (simp add: cleanDomainOf_def stripProtocol_def startsWith_def split_first_def
        toLowerCase_def toLowerCase_char_def isUpperCase_def trim_def isWhiteSpace_def
        domainChar_def)
  show ?thesis
    using GET_rejects_unclean_domain [OF k d c] by simp
qed

text \<open>
  The claim as stated fails on an input with capitals: \<open>Example.COM\<close> has characters
  outside the class, is cleaned to \<open>example.com\<close>, and the lookup succeeds.
\<close>

theorem GET_accepts_uppercase_counterexample:
  "\<not> list_all domainChar ''Example.COM''
   \<and> GET (\<lambda>s. None) (Some ''key'')
         (\<lambda>d k. Resolved \<lparr>Response.status = 200, statusText = ''OK'',
            json = JsonValue (Object \<lparr>WhoisRecord = Some (JObj []),
              ErrorMessage = None\<rparr>)\<rparr>)
         \<lparr>domain_param = Some ''Example.COM'', type_param = Some ''contact''\<rparr>
       = NextResponse_json
           (ContactJson \<lparr>registrantName = ''N/A'', technicalContactName = ''N/A'',
              administrativeContactName = ''N/A'', contactEmail = JStr ''N/A''\<rparr>) 200"
proof -
  have p: "validateParams (Some ''Example.COM'') (Some ''contact'')
      = Inr (''Example.COM'', ''contact'')"
    by (simp add: validateParams_def trim_def isWhiteSpace_def)
  have v: "validateDomain ''Example.COM'' = Inr ''example.com''"
    by (simp add: validateDomain_def cleanDomainOf_def stripProtocol_def startsWith_def
        endsWith_def split_first_def toLowerCase_def toLowerCase_char_def isUpperCase_def
        trim_def isWhiteSpace_def domainRegex_test_def domainChar_def)
  show ?thesis
    by (simp add: domainChar_def GET_def truthy_def p v handleResponse_def ok_def
        processRecord_def contactInfo_def getRegistrantName_part003_def
        getTechnicalContactName_part003_def getAdministrativeContactName_part003_def
        or_json_def DEFAULT_FALLBACK_VALUE_def)
qed

text \<open>
  Claim C3, on the input it names. On success the clean domain is the input without its
  scheme, cut at the first slash, lower-cased and trimmed (\<open>validateDomain_Inr\<close>). But
  the scheme is matched before the input is lower-cased, by a pattern without the \<open>i\<close>
  flag, so an upper-case \<open>HTTPS://\<close> is not stripped: the first slash then cuts the
  input down to \<open>HTTPS:\<close>, which has no dot, and every such input is rejected with
  status 400. The input \<open>HTTPS://Example.COM/path\<close> of the claim is one of them; with
  the scheme in lower case the same input is accepted and cleaned to \<open>example.com\<close>.
\<close>

theorem uppercase_scheme_rejected:
  assumes "startsWith domain ''HTTPS://''"
  shows "validateDomain domain = Inl ''Invalid domain format''
       \<and> (truthy WHOIS_API_KEY
            \<and> validateParams (domain_param request) (type_param request) = Inr (domain, type)
          \<longrightarrow> GET Date_parse WHOIS_API_KEY fetch request
                = NextResponse_json (ErrorJson ''Invalid domain format'') 400)"
proof -
  have l: "length ''HTTPS://'' = 8" by simp
  have "take 8 domain = ''HTTPS://''"
    using assms unfolding startsWith_def l .
  then have "domain = ''HTTPS://'' @ drop 8 domain"
    using append_take_drop_id [of 8 domain] by simp
  then obtain rest where d: "domain = ''HTTPS://'' @ rest" ..
  have c: "cleanDomainOf domain = ''https:''"
    unfolding d
    by (simp add: cleanDomainOf_def stripProtocol_def startsWith_def split_first_def
        toLowerCase_def toLowerCase_char_def isUpperCase_def trim_def isWhiteSpace_def)
  have v: "validateDomain domain = Inl ''Invalid domain format''"
    by (simp add: validateDomain_def c startsWith_def)
  show ?thesis
    using v by (auto simp: GET_def truthy_def split: option.splits)
qed

theorem uppercase_scheme_rejected_witness:
  "validateDomain ''HTTPS://Example.COM/path'' = Inl ''Invalid domain format''
   \<and> GET (\<lambda>s. None) (Some ''key'') (\<lambda>d k. Rejected OtherFetchError)
         \<lparr>domain_param = Some ''HTTPS://Example.COM/path'', type_param = Some ''domain''\<rparr>
       = NextResponse_json (ErrorJson ''Invalid domain format'') 400
   \<and> validateDomain ''https://Example.COM/path'' = Inr ''example.com''"
proof -
  have s: "startsWith ''HTTPS://Example.COM/path'' ''HTTPS://''"
    by (simp add: startsWith_def)
  have k: "truthy (Some ''key'')" by (simp add: truthy_def)
  have p: "validateParams
      (domain_param \<lparr>domain_param = Some ''HTTPS://Example.COM/path'',
         type_param = Some ''domain''\<rparr>)
      (type_param \<lparr>domain_param = Some ''HTTPS://Example.COM/path'',
         type_param = Some ''domain''\<rparr>)
      = Inr (''HTTPS://Example.COM/path'', ''domain'')"
    by (simp add: validateParams_def trim_def isWhiteSpace_def)
  have lower: "validateDomain ''https://Example.COM/path'' = Inr ''example.com''"
    by (simp add: validateDomain_def cleanDomainOf_def stripProtocol_def startsWith_def
        endsWith_def split_first_def toLowerCase_def toLowerCase_char_def isUpperCase_def
        trim_def isWhiteSpace_def domainRegex_test_def domainChar_def)
  show ?thesis
    using k p lower
      uppercase_scheme_rejected [OF s, where WHOIS_API_KEY = "Some ''key''"
        and request = "\<lparr>domain_param = Some ''HTTPS://Example.COM/path'',
          type_param = Some ''domain''\<rparr>"
        and type = "''domain''" and Date_parse = "\<lambda>s. None"
        and fetch = "\<lambda>d k. Rejected OtherFetchError"]
    by simp
qed

section \<open>The suggestion gateway\<close>

text \<open>A request that passes validation and a generation call that returns.\<close>

lemma POST_generated:
  assumes "content_type request = Some contentType"
    and "String_includes contentType ''application/json''"
    and "validateDescription (request_json request) = Inr description"
    and "GEMINI_API_KEY = Some API_KEY" and "API_KEY \<noteq> []"
    and "GoogleGenAI API_KEY = Some generateContent"
    and "generateContent (trim description) = AiReturns response"
  shows "POST GEMINI_API_KEY GoogleGenAI request = validateAiResponse response"
  using assms by (simp add: POST_def truthy_def)

text \<open>
  Claim C7. When the generation call returns, the answer is status 500 with an error
  message whenever there is no response, reading its text throws, the text is absent, is
  not a string, or is a string that trims to the empty string. Otherwise the answer is
  status 200 and carries the trimmed text, one string, as it is. A success never carries
  the empty string.
\<close>

theorem POST_text_validation:
  assumes "content_type request = Some contentType"
    and "String_includes contentType ''application/json''"
    and "validateDescription (request_json request) = Inr description"
    and "GEMINI_API_KEY = Some API_KEY" and "API_KEY \<noteq> []"
    and "GoogleGenAI API_KEY = Some generateContent"
    and "generateContent (trim description) = AiReturns response"
  shows "(response = NoResponse \<or> response = AiResponse TextThrows
            \<or> response = AiResponse (TextValue Undefined)
            \<or> response = AiResponse (TextValue (Other b))
            \<or> (response = AiResponse (TextValue (Str t)) \<and> trim t = [])
          \<longrightarrow> NextResponse.status (POST GEMINI_API_KEY GoogleGenAI request) = 500
              \<and> (\<exists>e. body (POST GEMINI_API_KEY GoogleGenAI request) = ErrorJson e))
       \<and> (response = AiResponse (TextValue (Str t)) \<and> trim t \<noteq> []
          \<longrightarrow> POST GEMINI_API_KEY GoogleGenAI request
                = NextResponse_json (AiJson (trim t)) 200)
       \<and> POST GEMINI_API_KEY GoogleGenAI request \<noteq> NextResponse_json (AiJson []) 200"
proof -
  have p: "POST GEMINI_API_KEY GoogleGenAI request = validateAiResponse response"
    using assms by (rule POST_generated)
  have never: "validateAiResponse response \<noteq> NextResponse_json (AiJson []) 200"
    by (auto simp: validateAiResponse_def validateText_def NextResponse_json_def
        split: ai_response.splits text_result.splits js_value.splits)
  have empty: "trim [] = []" by (simp add: trim_def)
  show ?thesis
    unfolding p using never empty
    by (auto simp: validateAiResponse_def validateText_def NextResponse_json_def)
qed

theorem POST_text_validation_witness:
  "POST (Some ''key'') (\<lambda>k. Some (\<lambda>d. AiReturns (AiResponse (TextValue (Str '' a.com ''))))) 
      \<lparr>content_type = Some ''application/json'', request_json = RequestBody (Str ''shops'')\<rparr>
     = NextResponse_json (AiJson ''a.com'') 200
   \<and> NextResponse.status
        (POST (Some ''key'') (\<lambda>k. Some (\<lambda>d. AiReturns (AiResponse (TextValue (Str ''  '')))))
           \<lparr>content_type = Some ''application/json'', request_json = RequestBody (Str ''shops'')\<rparr>)
       = 500"
proof -
  have c: "String_includes ''application/json'' ''application/json''"
    by (simp add: startsWith_def)
  have v: "validateDescription
      (request_json \<lparr>content_type = Some ''application/json'',
         request_json = RequestBody (Str ''shops'')\<rparr>) = Inr ''shops''"
    by (simp add: validateDescription_def trim_def isWhiteSpace_def)
  have k: "''key'' \<noteq> []" by simp
  have t1: "trim '' a.com '' = ''a.com''" by (simp add: trim_def isWhiteSpace_def)
  have t2: "trim ''  '' = []" by (simp add: trim_def isWhiteSpace_def)
  have g1: "(\<lambda>k. Some (\<lambda>d. AiReturns (AiResponse (TextValue (Str '' a.com ''))))) ''key''
      = Some (\<lambda>d. AiReturns (AiResponse (TextValue (Str '' a.com ''))))"
    by simp
  have g2: "(\<lambda>k. Some (\<lambda>d. AiReturns (AiResponse (TextValue (Str ''  ''))))) ''key''
      = Some (\<lambda>d. AiReturns (AiResponse (TextValue (Str ''  ''))))"
    by simp
  show ?thesis
    using t1 t2
      POST_text_validation [OF _ c v refl k g1 refl, where t = "'' a.com ''" and b = True, simplified]
      POST_text_validation [OF _ c v refl k g2 refl, where t = "''  ''" and b = True, simplified]
    by simp
qed

section \<open>Dates\<close>

text \<open>
  The date part of the ISO form has no \<open>T\<close>, so the part of \<open>toISOString\<close> before the
  first \<open>T\<close> is the date, which has ten characters for the years 0 to 9999.
\<close>

lemma digit_in: "digit k \<in> set ''0123456789''"
  unfolding digit_def by (rule nth_mem) simp

lemma digit_not_T: "digit k \<noteq> CHR ''T''" "CHR ''T'' \<noteq> digit k"
  using digit_in [of k] by auto

lemma isoYear_no_T: "CHR ''T'' \<notin> set (isoYear y)"
  by (simp add: isoYear_def pad4_def pad6_def digit_not_T)

lemma isoDate_no_T: "CHR ''T'' \<notin> set (isoDate t)"
  by (simp add: isoDate_def isoYear_no_T pad2_def digit_not_T)

lemma isoDate_nonempty: "isoDate t \<noteq> []"
  by (simp add: isoDate_def)

lemma split_toISOString: "split_first (toISOString t) CHR ''T'' = isoDate t"
proof -
  have "\<forall>x\<in>set (isoDate t). x \<noteq> CHR ''T''"
    using isoDate_no_T [of t] by auto
  then show ?thesis
    by (simp add: toISOString_def split_first_def takeWhile_tail)
qed

lemma isoDate_length:
  "0 \<le> YearFromTime t \<Longrightarrow> YearFromTime t \<le> 9999 \<Longrightarrow> length (isoDate t) = 10"
  by (simp add: isoDate_def isoYear_def pad4_def pad2_def)

lemma formatDate_nonempty: "formatDate Date_parse d \<noteq> []"
  by (simp add: formatDate_def split_toISOString isoDate_nonempty split: option.splits)

lemma civil_example: "civil 19716 = (2023, 12, 25)"
  unfolding civil_def Let_def by simp

lemma isoDate_example: "isoDate 1703500200000 = ''2023-12-25''"
proof -
  have d: "Day 1703500200000 = 19716" by (simp add: Day_def msPerDay_def)
  show ?thesis
    by (simp add: isoDate_def YearFromTime_def MonthFromTime_def DateFromTime_def d
        civil_example isoYear_def pad4_def pad2_def digit_def)
qed

lemma toISOString_example: "toISOString 1703500200000 = ''2023-12-25T10:30:00.000Z''"
  by (simp add: toISOString_def isoDate_example isoTime_def TimeWithinDay_def msPerDay_def
      pad2_def pad3_def digit_def)

text \<open>
  Claim C8. \<open>formatDate\<close> gives the fallback token \<open>N/A\<close> for an absent argument, for the
  empty string and for every string that does not parse as a date, and otherwise the part
  of the ISO form of the parsed date before its \<open>T\<close>, the date \<open>YYYY-MM-DD\<close> (its first
  ten characters for the years 0 to 9999). In particular \<open>not-a-date\<close>, which no engine
  parses, gives the fallback token, and \<open>2023-12-25T10:30:00Z\<close>, whose time value is
  1703500200000, gives \<open>2023-12-25\<close>.
\<close>

theorem formatDate_iso_slice:
  "formatDate Date_parse None = ''N/A''
   \<and> formatDate Date_parse (Some []) = ''N/A''
   \<and> (Date_parse s = None \<longrightarrow> formatDate Date_parse (Some s) = ''N/A'')
   \<and> (s \<noteq> [] \<and> Date_parse s = Some t \<longrightarrow>
        formatDate Date_parse (Some s) = split_first (toISOString t) CHR ''T''
        \<and> formatDate Date_parse (Some s) = isoDate t
        \<and> (0 \<le> YearFromTime t \<and> YearFromTime t \<le> 9999 \<longrightarrow>
             formatDate Date_parse (Some s) = take 10 (toISOString t)))
   \<and> (Date_parse ''not-a-date'' = None \<longrightarrow>
        formatDate Date_parse (Some ''not-a-date'') = ''N/A'')
   \<and> (Date_parse ''2023-12-25T10:30:00Z'' = Some 1703500200000 \<longrightarrow>
        formatDate Date_parse (Some ''2023-12-25T10:30:00Z'') = ''2023-12-25'')"
proof -
  have slice: "take 10 (toISOString t) = isoDate t"
    if "0 \<le> YearFromTime t" and "YearFromTime t \<le> 9999"
    using isoDate_length [OF that] by (simp add: toISOString_def)
  show ?thesis
    using slice
    by (simp add: formatDate_def split_toISOString isoDate_example)
qed

theorem formatDate_iso_slice_witness:
  "formatDate (\<lambda>s. if s = ''2023-12-25T10:30:00Z'' then Some 1703500200000 else None)
      (Some ''2023-12-25T10:30:00Z'') = ''2023-12-25''
   \<and> formatDate (\<lambda>s. if s = ''2023-12-25T10:30:00Z'' then Some 1703500200000 else None)
      (Some ''2023-12-25T10:30:00Z'') = take 10 (toISOString 1703500200000)
   \<and> formatDate (\<lambda>s. if s = ''2023-12-25T10:30:00Z'' then Some 1703500200000 else None)
      (Some ''not-a-date'') = ''N/A''"
proof -
  have y: "YearFromTime 1703500200000 = 2023"
    by (simp add: YearFromTime_def Day_def msPerDay_def civil_example)
  show ?thesis
    using y
      formatDate_iso_slice [of "\<lambda>s. if s = ''2023-12-25T10:30:00Z'' then Some 1703500200000 else None"
        "''2023-12-25T10:30:00Z''" 1703500200000]
      formatDate_iso_slice [of "\<lambda>s. if s = ''2023-12-25T10:30:00Z'' then Some 1703500200000 else None"
        "''not-a-date''" 0]
    by (simp add: toISOString_example split_first_def)
qed

section \<open>The domain information\<close>

text \<open>The date helper of the documented revision, case by case.\<close>

lemma isDigit_digit: "isDigit (digit k)"
proof -
  have "\<forall>c\<in>set ''0123456789''. isDigit c" by (simp add: isDigit_def)
  then show ?thesis using digit_in [of k] by blast
qed

lemma dateRegex_isoDate:
  "0 \<le> YearFromTime t \<Longrightarrow> YearFromTime t \<le> 9999 \<Longrightarrow> dateRegex_test (isoDate t)"
  by (simp add: isoDate_def isoYear_def pad4_def pad2_def isDigit_digit)

lemma dateRegex_length: "dateRegex_test s \<Longrightarrow> length s = 10"
  by (induction s rule: dateRegex_test.induct) simp_all

lemma isoDate_long:
  "\<not> (0 \<le> YearFromTime t \<and> YearFromTime t \<le> 9999) \<Longrightarrow> length (isoDate t) = 13"
  by (auto simp: isoDate_def isoYear_def pad6_def pad2_def)

lemma formatDate_part003_not_string:
  "(\<forall>s. v \<noteq> JStr s) \<Longrightarrow> formatDate_part003 Date_parse v = ''N/A''"
  by (cases v) (simp_all add: formatDate_part003_def DEFAULT_FALLBACK_VALUE_def)

lemma formatDate_part003_blank:
  "blank s \<Longrightarrow> formatDate_part003 Date_parse (JStr s) = ''N/A''"
  by (simp add: formatDate_part003_def blank_def DEFAULT_FALLBACK_VALUE_def)

lemma formatDate_part003_unparseable:
  "Date_parse (trim s) = None \<Longrightarrow> formatDate_part003 Date_parse (JStr s) = ''N/A''"
  by (simp add: formatDate_part003_def DEFAULT_FALLBACK_VALUE_def)

lemma formatDate_part003_parsed:
  assumes "\<not> blank s" and "Date_parse (trim s) = Some t"
  shows "formatDate_part003 Date_parse (JStr s)
           = (if 0 \<le> YearFromTime t \<and> YearFromTime t \<le> 9999 then isoDate t else ''N/A'')"
proof -
  have s: "s \<noteq> []" "trim s \<noteq> []"
    using assms(1) by (auto simp: blank_def trim_def)
  show ?thesis
  proof (cases "0 \<le> YearFromTime t \<and> YearFromTime t \<le> 9999")
    case True
    then show ?thesis
      using s assms(2) dateRegex_isoDate [of t]
      by (simp add: formatDate_part003_def split_toISOString)
  next
    case False
    then have "\<not> dateRegex_test (isoDate t)"
      using isoDate_long [of t] dateRegex_length [of "isoDate t"] by auto
    then show ?thesis
      using False s assms(2)
      by (auto simp: formatDate_part003_def split_toISOString DEFAULT_FALLBACK_VALUE_def)
  qed
qed

lemma formatDate_part003_nonempty: "formatDate_part003 Date_parse v \<noteq> []"
proof (cases v)
  case (JStr s)
  show ?thesis
  proof (cases "blank s")
    case True
    then show ?thesis by (simp add: JStr formatDate_part003_blank)
  next
    case False
    then show ?thesis
      by (cases "Date_parse (trim s)")
        (simp_all add: JStr formatDate_part003_unparseable formatDate_part003_parsed
          isoDate_nonempty)
  qed
qed (simp_all add: formatDate_part003_not_string)

text \<open>
  On the examples of the date claim the two revisions agree: the documented one differs
  from the short one by trimming its argument and by giving the fallback token for the
  years outside 0 to 9999.
\<close>

lemma formatDate_part003_examples:
  "formatDate_part003 Date_parse JNull = ''N/A''
   \<and> formatDate_part003 Date_parse (JStr []) = ''N/A''
   \<and> (Date_parse ''not-a-date'' = None \<longrightarrow>
        formatDate_part003 Date_parse (JStr ''not-a-date'') = ''N/A'')
   \<and> (Date_parse ''2023-12-25T10:30:00Z'' = Some 1703500200000 \<longrightarrow>
        formatDate_part003 Date_parse (JStr ''2023-12-25T10:30:00Z'') = ''2023-12-25'')"
proof -
  have t: "trim ''not-a-date'' = ''not-a-date''"
    "trim ''2023-12-25T10:30:00Z'' = ''2023-12-25T10:30:00Z''" "blank []"
    by (simp_all add: trim_def isWhiteSpace_def blank_def)
  have nb: "\<not> blank ''2023-12-25T10:30:00Z''"
    by (simp add: blank_def t)
  have y: "YearFromTime 1703500200000 = 2023"
    by (simp add: YearFromTime_def Day_def msPerDay_def civil_example)
  show ?thesis
    using formatDate_part003_parsed [OF nb, of Date_parse 1703500200000]
      formatDate_part003_unparseable [of Date_parse "''not-a-date''"]
    by (simp add: formatDate_part003_not_string formatDate_part003_blank t y
        isoDate_example)
qed

text \<open>The host-names helper gives a non-empty string.\<close>

lemma Array_join_nonempty:
  "xs \<noteq> [] \<Longrightarrow> \<forall>x\<in>set xs. x \<noteq> [] \<Longrightarrow> Array_join xs '', '' \<noteq> []"
  by (induction xs "'', ''" rule: Array_join.induct) auto

lemma formatHostnames_ref_nonempty: "formatHostnames_ref l \<noteq> []"
proof -
  define survivors where
    "survivors = (case l of None \<Rightarrow> [] | Some hs \<Rightarrow> filter (\<lambda>h. \<not> blank h) (strings_of hs))"
  have "\<forall>x\<in>set survivors. x \<noteq> []"
    by (auto simp: survivors_def blank_def trim_def split: option.splits)
  then have "survivors \<noteq> [] \<Longrightarrow> Array_join survivors '', '' \<noteq> []"
    by (simp add: Array_join_nonempty)
  then show ?thesis
    unfolding formatHostnames_ref_def survivors_def [symmetric] by (auto simp: Let_def)
qed

lemma formatHostnames_part003_value:
  "formatHostnames_part003 v
     = formatHostnames_ref (case v of JArr hs \<Rightarrow> Some hs | _ \<Rightarrow> None)"
proof (cases "\<exists>hs. v = JArr hs")
  case True
  then show ?thesis by (auto simp: formatHostnames_part003_array)
next
  case False
  then have "formatHostnames_part003 v = ''N/A''"
    by (simp add: formatHostnames_part003_not_array)
  then show ?thesis
    using False by (cases v) (simp_all add: formatHostnames_ref_def)
qed

text \<open>
  An answer that carries a domain information comes from the last step of the handler: the
  request passed both validations, the upstream response was 2xx and its body an object
  with a truthy record, and the requested kind was \<open>domain\<close>.
\<close>

lemma handleResponse_DomainJson:
  assumes "handleResponse Date_parse ty cleanDomain response
             = NextResponse_json (DomainJson info) st"
  shows "st = 200 \<and> ty = ''domain'' \<and> ok response
       \<and> (\<exists>data whoisRecord. json response = JsonValue (Object data)
             \<and> WhoisRecord data = Some whoisRecord \<and> truthy_json whoisRecord
             \<and> info = domainInfo Date_parse whoisRecord cleanDomain)"
  using assms
  by (auto simp: handleResponse_def httpErrorResponse_def processRecord_def
      NextResponse_json_def
      split: if_splits json_result.splits parsed_json.splits option.splits)

lemma validateParams_Inl_error:
  "validateParams d t = Inl r \<Longrightarrow> \<exists>e. body r = ErrorJson e"
  by (auto simp: validateParams_def NextResponse_json_def split: option.splits if_splits)

lemma fetchErrorResponse_error: "\<exists>e. body (fetchErrorResponse x) = ErrorJson e"
  by (simp add: fetchErrorResponse_def NextResponse_json_def)

lemma GET_DomainJson:
  assumes "GET Date_parse WHOIS_API_KEY fetch request = NextResponse_json (DomainJson info) st"
  shows "\<exists>apiKey domain cleanDomain response.
           WHOIS_API_KEY = Some apiKey \<and> apiKey \<noteq> []
           \<and> validateParams (domain_param request) (type_param request)
               = Inr (domain, ''domain'')
           \<and> validateDomain domain = Inr cleanDomain
           \<and> fetch cleanDomain apiKey = Resolved response
           \<and> handleResponse Date_parse ''domain'' cleanDomain response
               = NextResponse_json (DomainJson info) st"
proof (cases "truthy WHOIS_API_KEY")
  case False
  then show ?thesis
    using assms by (simp add: GET_def NextResponse_json_def)
next
  case True
  then obtain apiKey where key: "WHOIS_API_KEY = Some apiKey" "apiKey \<noteq> []"
    by (auto simp: truthy_def split: option.splits)
  show ?thesis
  proof (cases "validateParams (domain_param request) (type_param request)")
    case (Inl r)
    then show ?thesis
      using assms True key validateParams_Inl_error [OF Inl]
      by (auto simp: GET_def NextResponse_json_def)
  next
    case (Inr p)
    obtain domain ty where p: "p = (domain, ty)" by (cases p)
    show ?thesis
    proof (cases "validateDomain domain")
      case (Inl e)
      then show ?thesis
        using assms True key Inr p by (simp add: GET_def NextResponse_json_def)
    next
      case vd: (Inr cleanDomain)
      show ?thesis
      proof (cases "fetch cleanDomain apiKey")
        case (Rejected x)
        then show ?thesis
          using assms True key Inr p vd fetchErrorResponse_error [of x]
          by (auto simp: GET_def NextResponse_json_def)
      next
        case (Resolved response)
        then have h: "handleResponse Date_parse ty cleanDomain response
            = NextResponse_json (DomainJson info) st"
          using assms True key Inr p vd by (simp add: GET_def)
        then have "ty = ''domain''"
          using handleResponse_DomainJson by blast
        then show ?thesis
          using h key Inr p vd Resolved by auto
      qed
    qed
  qed
qed

lemma validateDomain_nonempty: "validateDomain d = Inr c \<Longrightarrow> c \<noteq> []"
  by (auto simp: validateDomain_def split: if_splits)

text \<open>
  Claim C4, as amended. Every answer of the handler that carries a domain information has
  status 200, and its registration date, expiration date and host names are non-empty
  strings. A date is the fallback token \<open>N/A\<close> when the field of the upstream record is
  absent, not a string, empty or blank, does not parse, or parses to a year outside 0 to
  9999, and the date \<open>YYYY-MM-DD\<close> of the trimmed field otherwise. The host names are
  what the reference definition gives for the upstream list, which is the fallback token
  when the list is absent, not a list, empty, or has no non-blank string. The domain name,
  the registrar and the estimated age are the upstream value when it is truthy, of
  whatever type, and else the clean domain of the request, the fallback token and 0: the
  domain name and the registrar are non-empty strings whenever the upstream value is a
  string or falsy, and the age is a non-negative integer whenever the upstream value is
  one or is falsy.
\<close>

theorem domain_information_fields:
  assumes "GET Date_parse WHOIS_API_KEY fetch request = NextResponse_json (DomainJson info) st"
  shows "st = 200
       \<and> registrationDate info \<noteq> [] \<and> expirationDate info \<noteq> [] \<and> hostnames info \<noteq> []
       \<and> (\<exists>apiKey cleanDomain response data whoisRecord.
             fetch cleanDomain apiKey = Resolved response
             \<and> json response = JsonValue (Object data)
             \<and> WhoisRecord data = Some whoisRecord
             \<and> cleanDomain \<noteq> []
             \<and> domainName info
                 = (if truthy_json (get_property whoisRecord ''domainName'')
                    then get_property whoisRecord ''domainName'' else JStr cleanDomain)
             \<and> registrar info
                 = (if truthy_json (get_property whoisRecord ''registrarName'')
                    then get_property whoisRecord ''registrarName'' else JStr ''N/A'')
             \<and> estimatedDomainAge info
                 = (if truthy_json (get_property whoisRecord ''estimatedDomainAge'')
                    then get_property whoisRecord ''estimatedDomainAge'' else JNum 0)
             \<and> ((\<exists>s. get_property whoisRecord ''domainName'' = JStr s)
                  \<or> \<not> truthy_json (get_property whoisRecord ''domainName'')
                \<longrightarrow> (\<exists>s. domainName info = JStr s \<and> s \<noteq> []))
             \<and> ((\<exists>s. get_property whoisRecord ''registrarName'' = JStr s)
                  \<or> \<not> truthy_json (get_property whoisRecord ''registrarName'')
                \<longrightarrow> (\<exists>s. registrar info = JStr s \<and> s \<noteq> []))
             \<and> ((\<exists>n. get_property whoisRecord ''estimatedDomainAge'' = JNum n \<and> 0 \<le> n)
                  \<or> \<not> truthy_json (get_property whoisRecord ''estimatedDomainAge'')
                \<longrightarrow> (\<exists>n. estimatedDomainAge info = JNum n \<and> 0 \<le> n))
             \<and> ((\<forall>s. get_property whoisRecord ''createdDate'' \<noteq> JStr s)
                \<longrightarrow> registrationDate info = ''N/A'')
             \<and> (\<forall>s t. get_property whoisRecord ''createdDate'' = JStr s \<longrightarrow>
                   (blank s \<longrightarrow> registrationDate info = ''N/A'')
                   \<and> (Date_parse (trim s) = None \<longrightarrow> registrationDate info = ''N/A'')
                   \<and> (\<not> blank s \<and> Date_parse (trim s) = Some t \<longrightarrow>
                        registrationDate info
                          = (if 0 \<le> YearFromTime t \<and> YearFromTime t \<le> 9999
                             then isoDate t else ''N/A'')))
             \<and> ((\<forall>s. get_property whoisRecord ''expiresDate'' \<noteq> JStr s)
                \<longrightarrow> expirationDate info = ''N/A'')
             \<and> (\<forall>s t. get_property whoisRecord ''expiresDate'' = JStr s \<longrightarrow>
                   (blank s \<longrightarrow> expirationDate info = ''N/A'')
                   \<and> (Date_parse (trim s) = None \<longrightarrow> expirationDate info = ''N/A'')
                   \<and> (\<not> blank s \<and> Date_parse (trim s) = Some t \<longrightarrow>
                        expirationDate info
                          = (if 0 \<le> YearFromTime t \<and> YearFromTime t \<le> 9999
                             then isoDate t else ''N/A'')))
             \<and> hostnames info
                 = formatHostnames_ref
                     (case get_property (get_property whoisRecord ''nameServers'') ''hostNames'' of
                        JArr hs \<Rightarrow> Some hs | _ \<Rightarrow> None)
             \<and> ((\<forall>hs. get_property (get_property whoisRecord ''nameServers'') ''hostNames''
                        = JArr hs
                      \<longrightarrow> filter (\<lambda>h. \<not> blank h) (strings_of hs) = [])
                \<longrightarrow> hostnames info = ''N/A''))"
proof -
  obtain apiKey domain cleanDomain response where
    vd: "validateDomain domain = Inr cleanDomain"
    and f: "fetch cleanDomain apiKey = Resolved response"
    and h: "handleResponse Date_parse ''domain'' cleanDomain response
              = NextResponse_json (DomainJson info) st"
    using GET_DomainJson [OF assms] by blast
  obtain data whoisRecord where st: "st = 200"
    and j: "json response = JsonValue (Object data)"
    and w: "WhoisRecord data = Some whoisRecord"
    and i: "info = domainInfo Date_parse whoisRecord cleanDomain"
    using handleResponse_DomainJson [OF h] by blast
  have c: "cleanDomain \<noteq> []"
    using vd by (rule validateDomain_nonempty)
  have strings: "registrationDate info \<noteq> [] \<and> expirationDate info \<noteq> []
      \<and> hostnames info \<noteq> []"
    by (simp add: i domainInfo_def formatDate_part003_nonempty formatHostnames_part003_value
        formatHostnames_ref_nonempty)
  have dn: "domainName info
      = (if truthy_json (get_property whoisRecord ''domainName'')
         then get_property whoisRecord ''domainName'' else JStr cleanDomain)"
    by (simp add: i domainInfo_def or_json_def)
  have rg: "registrar info
      = (if truthy_json (get_property whoisRecord ''registrarName'')
         then get_property whoisRecord ''registrarName'' else JStr ''N/A'')"
    by (simp add: i domainInfo_def or_json_def)
  have ag: "estimatedDomainAge info
      = (if truthy_json (get_property whoisRecord ''estimatedDomainAge'')
         then get_property whoisRecord ''estimatedDomainAge'' else JNum 0)"
    by (simp add: i domainInfo_def or_json_def)
  have dn_string: "(\<exists>s. get_property whoisRecord ''domainName'' = JStr s)
        \<or> \<not> truthy_json (get_property whoisRecord ''domainName'')
      \<longrightarrow> (\<exists>s. domainName info = JStr s \<and> s \<noteq> [])"
    using c by (auto simp: dn)
  have rg_string: "(\<exists>s. get_property whoisRecord ''registrarName'' = JStr s)
        \<or> \<not> truthy_json (get_property whoisRecord ''registrarName'')
      \<longrightarrow> (\<exists>s. registrar info = JStr s \<and> s \<noteq> [])"
    by (auto simp: rg)
  have ag_number: "(\<exists>n. get_property whoisRecord ''estimatedDomainAge'' = JNum n \<and> 0 \<le> n)
        \<or> \<not> truthy_json (get_property whoisRecord ''estimatedDomainAge'')
      \<longrightarrow> (\<exists>n. estimatedDomainAge info = JNum n \<and> 0 \<le> n)"
    by (auto simp: ag)
  have rd_absent: "(\<forall>s. get_property whoisRecord ''createdDate'' \<noteq> JStr s)
      \<longrightarrow> registrationDate info = ''N/A''"
    by (simp add: i domainInfo_def formatDate_part003_not_string)
  have rd_string: "\<forall>s t. get_property whoisRecord ''createdDate'' = JStr s \<longrightarrow>
      (blank s \<longrightarrow> registrationDate info = ''N/A'')
      \<and> (Date_parse (trim s) = None \<longrightarrow> registrationDate info = ''N/A'')
      \<and> (\<not> blank s \<and> Date_parse (trim s) = Some t \<longrightarrow>
           registrationDate info
             = (if 0 \<le> YearFromTime t \<and> YearFromTime t \<le> 9999
                then isoDate t else ''N/A''))"
    by (simp add: i domainInfo_def formatDate_part003_blank formatDate_part003_unparseable
        formatDate_part003_parsed)
  have ed_absent: "(\<forall>s. get_property whoisRecord ''expiresDate'' \<noteq> JStr s)
      \<longrightarrow> expirationDate info = ''N/A''"
    by (simp add: i domainInfo_def formatDate_part003_not_string)
  have ed_string: "\<forall>s t. get_property whoisRecord ''expiresDate'' = JStr s \<longrightarrow>
      (blank s \<longrightarrow> expirationDate info = ''N/A'')
      \<and> (Date_parse (trim s) = None \<longrightarrow> expirationDate info = ''N/A'')
      \<and> (\<not> blank s \<and> Date_parse (trim s) = Some t \<longrightarrow>
           expirationDate info
             = (if 0 \<le> YearFromTime t \<and> YearFromTime t \<le> 9999
                then isoDate t else ''N/A''))"
    by (simp add: i domainInfo_def formatDate_part003_blank formatDate_part003_unparseable
        formatDate_part003_parsed)
  have hn: "hostnames info
      = formatHostnames_ref
          (case get_property (get_property whoisRecord ''nameServers'') ''hostNames'' of
             JArr hs \<Rightarrow> Some hs | _ \<Rightarrow> None)"
  proof -
    have "formatHostnames_ref (if truthy_json v then None else Some []) = formatHostnames_ref None"
      for v
      by (simp add: formatHostnames_ref_def)
    then show ?thesis
      by (cases "get_property (get_property whoisRecord ''nameServers'') ''hostNames''")
        (simp_all add: i domainInfo_def formatHostnames_part003_value hostNamesOf_def
          or_json_def formatHostnames_ref_def)
  qed
  have hn_fallback: "(\<forall>hs. get_property (get_property whoisRecord ''nameServers'') ''hostNames''
          = JArr hs
        \<longrightarrow> filter (\<lambda>h. \<not> blank h) (strings_of hs) = [])
      \<longrightarrow> hostnames info = ''N/A''"
    unfolding hn
    by (cases "get_property (get_property whoisRecord ''nameServers'') ''hostNames''")
      (simp_all add: formatHostnames_ref_def)
  have upstream: "\<exists>apiKey cleanDomain response data whoisRecord.
      fetch cleanDomain apiKey = Resolved response
      \<and> json response = JsonValue (Object data)
      \<and> WhoisRecord data = Some whoisRecord
      \<and> cleanDomain \<noteq> []
      \<and> domainName info
          = (if truthy_json (get_property whoisRecord ''domainName'')
             then get_property whoisRecord ''domainName'' else JStr cleanDomain)
      \<and> registrar info
          = (if truthy_json (get_property whoisRecord ''registrarName'')
             then get_property whoisRecord ''registrarName'' else JStr ''N/A'')
      \<and> estimatedDomainAge info
          = (if truthy_json (get_property whoisRecord ''estimatedDomainAge'')
             then get_property whoisRecord ''estimatedDomainAge'' else JNum 0)
      \<and> ((\<exists>s. get_property whoisRecord ''domainName'' = JStr s)
           \<or> \<not> truthy_json (get_property whoisRecord ''domainName'')
         \<longrightarrow> (\<exists>s. domainName info = JStr s \<and> s \<noteq> []))
      \<and> ((\<exists>s. get_property whoisRecord ''registrarName'' = JStr s)
           \<or> \<not> truthy_json (get_property whoisRecord ''registrarName'')
         \<longrightarrow> (\<exists>s. registrar info = JStr s \<and> s \<noteq> []))
      \<and> ((\<exists>n. get_property whoisRecord ''estimatedDomainAge'' = JNum n \<and> 0 \<le> n)
           \<or> \<not> truthy_json (get_property whoisRecord ''estimatedDomainAge'')
         \<longrightarrow> (\<exists>n. estimatedDomainAge info = JNum n \<and> 0 \<le> n))
      \<and> ((\<forall>s. get_property whoisRecord ''createdDate'' \<noteq> JStr s)
         \<longrightarrow> registrationDate info = ''N/A'')
      \<and> (\<forall>s t. get_property whoisRecord ''createdDate'' = JStr s \<longrightarrow>
            (blank s \<longrightarrow> registrationDate info = ''N/A'')
            \<and> (Date_parse (trim s) = None \<longrightarrow> registrationDate info = ''N/A'')
            \<and> (\<not> blank s \<and> Date_parse (trim s) = Some t \<longrightarrow>
                 registrationDate info
                   = (if 0 \<le> YearFromTime t \<and> YearFromTime t \<le> 9999
                      then isoDate t else ''N/A'')))
      \<and> ((\<forall>s. get_property whoisRecord ''expiresDate'' \<noteq> JStr s)
         \<longrightarrow> expirationDate info = ''N/A'')
      \<and> (\<forall>s t. get_property whoisRecord ''expiresDate'' = JStr s \<longrightarrow>
            (blank s \<longrightarrow> expirationDate info = ''N/A'')
            \<and> (Date_parse (trim s) = None \<longrightarrow> expirationDate info = ''N/A'')
            \<and> (\<not> blank s \<and> Date_parse (trim s) = Some t \<longrightarrow>
                 expirationDate info
                   = (if 0 \<le> YearFromTime t \<and> YearFromTime t \<le> 9999
                      then isoDate t else ''N/A'')))
      \<and> hostnames info
          = formatHostnames_ref
              (case get_property (get_property whoisRecord ''nameServers'') ''hostNames'' of
                 JArr hs \<Rightarrow> Some hs | _ \<Rightarrow> None)
      \<and> ((\<forall>hs. get_property (get_property whoisRecord ''nameServers'') ''hostNames''
                 = JArr hs
               \<longrightarrow> filter (\<lambda>h. \<not> blank h) (strings_of hs) = [])
         \<longrightarrow> hostnames info = ''N/A'')"
    apply (rule exI [of _ apiKey], rule exI [of _ cleanDomain], rule exI [of _ response])
    apply (rule exI [of _ data], rule exI [of _ whoisRecord])
    apply (intro conjI)
    apply (rule f j w c dn rg ag dn_string rg_string ag_number rd_absent rd_string
        ed_absent ed_string hn hn_fallback)+
    done
  show ?thesis
    using st strings upstream by (intro conjI) simp_all
qed

lemmas GET_eval = GET_def truthy_def validateParams_example validateDomain_example
  handleResponse_def ok_def processRecord_def domainInfo_def or_json_def hostNamesOf_def
  formatHostnames_part003_def substring_def DEFAULT_FALLBACK_VALUE_def
  MAX_HOSTNAME_DISPLAY_LENGTH_def HOSTNAME_TRUNCATION_SUFFIX_def trim_def isWhiteSpace_def

theorem domain_information_fields_witness:
  "GET (\<lambda>s. if s = ''2023-12-25T10:30:00Z'' then Some 1703500200000 else None)
      (Some ''key'')
      (\<lambda>d k. Resolved \<lparr>Response.status = 200, statusText = ''OK'',
         json = JsonValue (Object \<lparr>WhoisRecord = Some (JObj
           [(''domainName'', JStr ''EXAMPLE.COM''),
            (''createdDate'', JStr ''2023-12-25T10:30:00Z''),
            (''expiresDate'', JStr ''soon''),
            (''nameServers'', JObj [(''hostNames'', JArr [JStr ''ns1.example.com'', JStr ''''])]),
            (''estimatedDomainAge'', JNum 9000)]),
           ErrorMessage = None\<rparr>)\<rparr>)
      \<lparr>domain_param = Some ''example.com'', type_param = Some ''domain''\<rparr>
     = NextResponse_json
         (DomainJson \<lparr>domainName = JStr ''EXAMPLE.COM'', registrar = JStr ''N/A'',
            registrationDate = ''2023-12-25'', expirationDate = ''N/A'',
            estimatedDomainAge = JNum 9000, hostnames = ''ns1.example.com''\<rparr>) 200
   \<and> hostnames \<lparr>domainName = JStr ''EXAMPLE.COM'', registrar = JStr ''N/A'',
            registrationDate = ''2023-12-25'', expirationDate = ''N/A'',
            estimatedDomainAge = JNum 9000, hostnames = ''ns1.example.com''\<rparr> \<noteq> []"
proof -
  have created: "formatDate_part003
      (\<lambda>s. if s = ''2023-12-25T10:30:00Z'' then Some 1703500200000 else None)
      (JStr ''2023-12-25T10:30:00Z'') = ''2023-12-25''"
    using formatDate_part003_examples
      [of "\<lambda>s. if s = ''2023-12-25T10:30:00Z'' then Some 1703500200000 else None"]
    by simp
  have expires: "formatDate_part003
      (\<lambda>s. if s = ''2023-12-25T10:30:00Z'' then Some 1703500200000 else None)
      (JStr ''soon'') = ''N/A''"
    by (rule formatDate_part003_unparseable) (simp add: trim_def isWhiteSpace_def)
  have h: "GET (\<lambda>s. if s = ''2023-12-25T10:30:00Z'' then Some 1703500200000 else None)
      (Some ''key'')
      (\<lambda>d k. Resolved \<lparr>Response.status = 200, statusText = ''OK'',
         json = JsonValue (Object \<lparr>WhoisRecord = Some (JObj
           [(''domainName'', JStr ''EXAMPLE.COM''),
            (''createdDate'', JStr ''2023-12-25T10:30:00Z''),
            (''expiresDate'', JStr ''soon''),
            (''nameServers'', JObj [(''hostNames'', JArr [JStr ''ns1.example.com'', JStr ''''])]),
            (''estimatedDomainAge'', JNum 9000)]),
           ErrorMessage = None\<rparr>)\<rparr>)
      \<lparr>domain_param = Some ''example.com'', type_param = Some ''domain''\<rparr>
     = NextResponse_json
         (DomainJson \<lparr>domainName = JStr ''EXAMPLE.COM'', registrar = JStr ''N/A'',
            registrationDate = ''2023-12-25'', expirationDate = ''N/A'',
            estimatedDomainAge = JNum 9000, hostnames = ''ns1.example.com''\<rparr>) 200"
    by (simp add: GET_eval created expires)
  show ?thesis
    using h domain_information_fields [OF h] by simp
qed

text \<open>
  The claim as stated fails on an upstream record with a negative age and a number for
  the registrar: both are truthy and are taken over as they are.
\<close>

theorem domain_information_counterexample:
  "GET (\<lambda>s. None) (Some ''key'')
      (\<lambda>d k. Resolved \<lparr>Response.status = 200, statusText = ''OK'',
         json = JsonValue (Object \<lparr>WhoisRecord = Some (JObj
           [(''registrarName'', JNum 7), (''estimatedDomainAge'', JNum (- 5))]),
           ErrorMessage = None\<rparr>)\<rparr>)
      \<lparr>domain_param = Some ''example.com'', type_param = Some ''domain''\<rparr>
     = NextResponse_json
         (DomainJson \<lparr>domainName = JStr ''example.com'', registrar = JNum 7,
            registrationDate = ''N/A'', expirationDate = ''N/A'',
            estimatedDomainAge = JNum (- 5), hostnames = ''N/A''\<rparr>) 200"
  by (simp add: GET_eval formatDate_part003_not_string)

end
